theory Spec2Isabelle
  imports Main "HOL-Library.Sublist" "HOL-Library.Char_ord" "HOL-Library.List_Lexorder"
begin

section \<open>Request values\<close>

text \<open>
  A field of a parsed JSON request body. \<open>JUndefined\<close> is a key that is absent,
  \<open>JObj\<close> stands for every object and array (always truthy, \<open>typeof\<close> is
  \<open>'object'\<close>). Strings are lists of code units; the model covers the code units
  up to 255.
\<close>

datatype jsval = JUndefined | JNull | JBool bool | JNum int | JStr string | JObj

fun truthy :: "jsval \<Rightarrow> bool" where
  "truthy JUndefined = False"
| "truthy JNull = False"
| "truthy (JBool b) = b"
| "truthy (JNum n) = (n \<noteq> 0)"
| "truthy (JStr s) = (s \<noteq> [])"
| "truthy JObj = True"

text \<open>
  The white space of \<open>String.prototype.trim\<close> and of the regular expression class
  \<open>\s\<close> (WhiteSpace and LineTerminator), among the code units up to 255:
  TAB, LF, VT, FF, CR, SPACE and NO-BREAK SPACE.
\<close>

definition is_ws :: "char \<Rightarrow> bool" where
  "is_ws c = (c \<in> set [CHR 0x09, CHR 0x0A, CHR 0x0B, CHR 0x0C, CHR 0x0D, CHR 0x20, CHR 0xA0])"

definition trim :: "string \<Rightarrow> string" where
  "trim s = rev (dropWhile is_ws (rev (dropWhile is_ws s)))"

text \<open>The character class \<open>[a-zA-Z\s\-']\<close> of \<open>characterOnlyRegex\<close>.\<close>

definition is_letter :: "char \<Rightarrow> bool" where
  "is_letter c = (let n = (of_char c :: nat) in (97 \<le> n \<and> n \<le> 122) \<or> (65 \<le> n \<and> n \<le> 90))"

definition name_char :: "char \<Rightarrow> bool" where
  "name_char c = (is_letter c \<or> is_ws c \<or> c = CHR ''-'' \<or> c = CHR 0x27)"

text \<open>\<open>/^[a-zA-Z\s\-']+$/.test(s)\<close>: one or more characters, all of the class.\<close>

definition characterOnlyRegex :: "string \<Rightarrow> bool" where
  "characterOnlyRegex s = (s \<noteq> [] \<and> list_all name_char s)"

section \<open>Validation of a category type (validateCategoryType)\<close>

text \<open>
  The middleware either answers the request itself (\<open>Inl\<close>: HTTP status and message)
  or rewrites \<open>req.body\<close> and calls \<open>next()\<close> (\<open>Inr\<close>: the trimmed type
  name and the trimmed description, \<open>None\<close> for \<open>null\<close>). It reads the request
  only; the store is not among its arguments.
\<close>

definition validateCategoryType :: "jsval \<Rightarrow> jsval \<Rightarrow> (nat \<times> string) + (string \<times> string option)" where
  "validateCategoryType type_name description =
     (case type_name of
        JStr tn \<Rightarrow>
          if \<not> truthy type_name \<or> length (trim tn) = 0
          then Inl (400, ''Type name is required and must be a non-empty string'')
          else if length (trim tn) > 50
          then Inl (400, ''Type name must be 50 characters or less'')
          else
            let trimmedName = trim tn in
            if \<not> characterOnlyRegex trimmedName
            then Inl (400, ''Type name must contain only letters, spaces, hyphens, and apostrophes'')
            else
              (case description of
                 JStr d \<Rightarrow>
                   if truthy description \<and> length d > 200
                   then Inl (400, ''Description must be 200 characters or less'')
                   else Inr (trimmedName, if truthy description then Some (trim d) else None)
               | _ \<Rightarrow>
                   if truthy description
                   then Inl (400, ''Description must be a string'')
                   else Inr (trimmedName, None))
      | _ \<Rightarrow> Inl (400, ''Type name is required and must be a non-empty string''))"

text \<open>The contract in the words of the specification.\<close>

definition type_name_ok :: "jsval \<Rightarrow> bool" where
  "type_name_ok v =
     (case v of JStr tn \<Rightarrow> trim tn \<noteq> [] \<and> length (trim tn) \<le> 50 \<and> characterOnlyRegex (trim tn)
      | _ \<Rightarrow> False)"

definition present :: "jsval \<Rightarrow> bool" where
  "present v = (v \<noteq> JUndefined \<and> v \<noteq> JNull)"

definition description_ok :: "jsval \<Rightarrow> bool" where
  "description_ok v = (case v of JStr d \<Rightarrow> length d \<le> 200 | _ \<Rightarrow> False)"

definition accepted :: "(nat \<times> string) + 'a \<Rightarrow> bool" where
  "accepted r = (case r of Inl _ \<Rightarrow> False | Inr _ \<Rightarrow> True)"

section \<open>The store\<close>

text \<open>
  The tables of the SQL scripts, each a list of rows. Only the columns that the
  modelled handlers read or write are kept.
\<close>

type_synonym uuid = string
type_synonym timestamp = string

record category_type =
  ct_id :: uuid
  ct_type_name :: string
  ct_description :: "string option"
  ct_created_at :: timestamp
  ct_updated_at :: timestamp

text \<open>An element of the JSONB list \<open>expense_categories.subcategories\<close>.\<close>

record subcategory =
  sub_name :: string
  sub_icon :: "string option"
  sub_isRecurring :: bool
  sub_frequency :: "string option"

record expense_category =
  ec_id :: uuid
  ec_category :: string
  ec_icon :: "string option"
  ec_subcategories :: "subcategory list"
  ec_category_type_id :: "uuid option"
  ec_is_active :: bool
  ec_created_at :: timestamp
  ec_updated_at :: timestamp

record income_category =
  ic_id :: uuid
  ic_name :: string
  ic_category_type_id :: "uuid option"
  ic_created_at :: timestamp
  ic_updated_at :: timestamp

record income_subcategory =
  isc_id :: uuid
  isc_category_id :: uuid
  isc_name :: string
  isc_is_recurring :: bool
  isc_created_at :: timestamp
  isc_updated_at :: timestamp

record expense =
  ex_id :: uuid
  ex_user_id :: uuid
  ex_amount :: int
  ex_category :: string
  ex_subcategory :: "string option"

text \<open>The values that the CHECK constraint of \<open>payments.status\<close> admits.\<close>

datatype pay_status = Created | Authorized | Captured | Failed | Refunded

record payment =
  p_id :: uuid
  p_user_id :: uuid
  p_amount :: int
  p_status :: pay_status
  p_razorpay_order_id :: "string option"
  p_razorpay_payment_id :: "string option"
  p_razorpay_signature :: "string option"
  p_method :: "string option"
  p_email :: "string option"
  p_contact :: "string option"
  p_verified_at :: "timestamp option"
  p_updated_at :: timestamp

record db =
  category_types :: "category_type list"
  expense_categories :: "expense_category list"
  income_categories :: "income_category list"
  income_subcategories :: "income_subcategory list"
  expenses :: "expense list"
  payments :: "payment list"

subsection \<open>The environment of a request\<close>

text \<open>
  What a store call can do besides answering: return \<open>{ data: null, error }\<close> without
  touching the tables (\<open>ReturnsError\<close>: the client library reports every failure of
  the request this way) or raise an exception (\<open>Throws\<close>). The \<open>k\<close>-th store call
  of a handler meets the \<open>k\<close>-th entry of the list \<open>faults\<close>; calls beyond the list
  meet no fault.
\<close>

datatype fault = NoFault | ReturnsError | Throws

record env =
  now :: timestamp
  db_now :: timestamp
  gen_random_uuid :: "nat \<Rightarrow> uuid"
  faults :: "fault list"

definition fault_at :: "env \<Rightarrow> nat \<Rightarrow> fault" where
  "fault_at e k = (if k < length (faults e) then faults e ! k else NoFault)"

text \<open>The \<open>{ data, error }\<close> object that a store call resolves to.\<close>

datatype 'a reply = Reply (rdata: "'a option") (rerror: "string option")

definition query :: "fault \<Rightarrow> db \<Rightarrow> 'a reply \<times> db \<Rightarrow> ('a reply \<times> db) option" where
  "query f s normal =
     (case f of
        Throws \<Rightarrow> None
      | ReturnsError \<Rightarrow> Some (Reply None (Some ''request failed''), s)
      | NoFault \<Rightarrow> Some normal)"

text \<open>
  \<open>.single()\<close>: exactly one row, or the error PGRST116. On a write the error rolls
  the write back, so the callers below keep the old tables in that case.
\<close>

definition single :: "'a list \<Rightarrow> 'a reply" where
  "single rows = (case rows of [r] \<Rightarrow> Reply (Some r) None | _ \<Rightarrow> Reply None (Some ''PGRST116''))"

subsection \<open>HTTP responses\<close>

record 'd response =
  status :: nat
  success :: bool
  message :: "string option"
  resp_data :: "'d option"

definition respond :: "nat \<Rightarrow> bool \<Rightarrow> string \<Rightarrow> 'd response" where
  "respond st ok msg = \<lparr>status = st, success = ok, message = Some msg, resp_data = None\<rparr>"

text \<open>What a handler leaves behind: the response, the console lines, the tables.\<close>

type_synonym 'd outcome = "'d response \<times> string list \<times> db"

section \<open>Payments\<close>

subsection \<open>Store calls on the payments table\<close>

text \<open>
  \<open>update(...).eq('razorpay_order_id', oid)\<close>: every row with that order id is
  rewritten, and the trigger \<open>update_payments_updated_at\<close> stamps it.
\<close>

definition update_payments :: "env \<Rightarrow> (payment \<Rightarrow> payment) \<Rightarrow> string \<Rightarrow> db \<Rightarrow> db" where
  "update_payments e f oid s =
     s\<lparr>payments :=
         map (\<lambda>p. if p_razorpay_order_id p = Some oid then (f p)\<lparr>p_updated_at := db_now e\<rparr> else p)
           (payments s)\<rparr>"

text \<open>The same with \<open>.select().single()\<close>: the rewritten rows are returned.\<close>

definition update_payments_single ::
  "env \<Rightarrow> (payment \<Rightarrow> payment) \<Rightarrow> string \<Rightarrow> db \<Rightarrow> payment reply \<times> db" where
  "update_payments_single e f oid s =
     (let s' = update_payments e f oid s;
          r = single (filter (\<lambda>p. p_razorpay_order_id p = Some oid) (payments s'))
      in (r, if rerror r = None then s' else s))"

text \<open>A key whose value is \<open>undefined\<close> is not sent, so its column keeps its value.\<close>

definition set_opt :: "'a option \<Rightarrow> 'a option \<Rightarrow> 'a option" where
  "set_opt new old = (case new of None \<Rightarrow> old | Some v \<Rightarrow> Some v)"

subsection \<open>jwtAuthMiddleware\<close>

fun split_on :: "char \<Rightarrow> string \<Rightarrow> string list" where
  "split_on c [] = [[]]"
| "split_on c (x # xs) =
     (if x = c then [] # split_on c xs
      else (case split_on c xs of w # ws \<Rightarrow> (x # w) # ws | [] \<Rightarrow> [[x]]))"

text \<open>
  \<open>jwt_verify\<close> is \<open>jwt.verify\<close> under the configured secret. \<open>None\<close> is
  \<open>next()\<close>; otherwise the middleware has answered.
\<close>

definition jwtAuthMiddleware ::
  "(string \<Rightarrow> bool) \<Rightarrow> string option \<Rightarrow> ('d response \<times> string list) option" where
  "jwtAuthMiddleware jwt_verify authHeader =
     (case authHeader of
        None \<Rightarrow> Some (respond 401 False ''Authorization header missing'', [])
      | Some h \<Rightarrow>
          if h = [] then Some (respond 401 False ''Authorization header missing'', [])
          else
            (case split_on CHR '' '' h of
               _ # token # _ \<Rightarrow>
                 if token = [] then Some (respond 401 False ''Token missing'', [])
                 else if \<not> jwt_verify token
                 then Some (respond 401 False ''Invalid or expired token'', [''JWT verification error''])
                 else None
             | _ \<Rightarrow> Some (respond 401 False ''Token missing'', [])))"

subsection \<open>POST /api/payments/verify\<close>

text \<open>The three fields of the body, each a JSON string or absent.\<close>

record verify_body =
  razorpay_order_id :: "string option"
  razorpay_payment_id :: "string option"
  razorpay_signature :: "string option"

text \<open>
  \<open>hmac\<close> is the hex digest of the SHA-256 HMAC: first the key, then the message.
\<close>

definition verify_handler ::
  "env \<Rightarrow> (string \<Rightarrow> string \<Rightarrow> string) \<Rightarrow> string \<Rightarrow> verify_body \<Rightarrow> db \<Rightarrow> payment outcome" where
  "verify_handler e hmac key_secret b s =
     (case (razorpay_order_id b, razorpay_payment_id b, razorpay_signature b) of
        (Some oid, Some pid, Some sg) \<Rightarrow>
          if oid = [] \<or> pid = [] \<or> sg = []
          then (respond 400 False ''Missing required fields'', [], s)
          else
            let expected = hmac key_secret (oid @ ''|'' @ pid);
                valid = (expected = sg)
            in
            if \<not> valid then
              (case query (fault_at e 0) s
                      (Reply None None,
                       update_payments e
                         (\<lambda>p. p\<lparr>p_status := Failed, p_razorpay_payment_id := Some pid,
                                 p_razorpay_signature := Some sg\<rparr>) oid s) of
                 None \<Rightarrow> (respond 500 False ''Verification failed'', [''verify error''], s)
               | Some (_ :: payment reply, s') \<Rightarrow> (respond 400 False ''Invalid signature'', [], s'))
            else
              (case query (fault_at e 0) s
                      (update_payments_single e
                         (\<lambda>p. p\<lparr>p_status := Captured, p_razorpay_payment_id := Some pid,
                                 p_razorpay_signature := Some sg, p_verified_at := Some (now e)\<rparr>) oid s) of
                 None \<Rightarrow> (respond 500 False ''Verification failed'', [''verify error''], s)
               | Some (r, s') \<Rightarrow>
                   (\<lparr>status = 200, success = True, message = None, resp_data = rdata r\<rparr>,
                    (if rerror r \<noteq> None then [''payments update error''] else []),
                    s'))
      | _ \<Rightarrow> (respond 400 False ''Missing required fields'', [], s))"

text \<open>
  The route as registered first: the middleware, then the handler. The second
  registration of the same path is never reached, since the first answers every request.
\<close>

definition post_payments_verify ::
  "env \<Rightarrow> (string \<Rightarrow> string \<Rightarrow> string) \<Rightarrow> string \<Rightarrow> (string \<Rightarrow> bool) \<Rightarrow> string option \<Rightarrow>
   verify_body \<Rightarrow> db \<Rightarrow> payment outcome" where
  "post_payments_verify e hmac key_secret jwt_verify authHeader b s =
     (case jwtAuthMiddleware jwt_verify authHeader of
        Some (r, lg) \<Rightarrow> (r, lg, s)
      | None \<Rightarrow> verify_handler e hmac key_secret b s)"

subsection \<open>The payments edge function\<close>

text \<open>The branch of \<open>serve\<close> that a request takes.\<close>

datatype edge_branch = Preflight | CreateOrder | Verify | Health | NotFound

definition serve_branch :: "string \<Rightarrow> string \<Rightarrow> string option \<Rightarrow> edge_branch" where
  "serve_branch method pathname action =
     (if method = ''OPTIONS'' then Preflight
      else if (suffix ''/payments'' pathname \<or> suffix ''/create-order'' pathname) \<and> method = ''POST''
      then CreateOrder
      else if (suffix ''/payments'' pathname \<or> suffix ''/verify'' pathname) \<and> method = ''POST''
              \<and> (action = Some ''verify'' \<or> suffix ''/verify'' pathname)
      then Verify
      else if suffix ''/health'' pathname then Health
      else NotFound)"

text \<open>
  The verify branch. \<open>admin\<close> tells whether \<open>supabaseAdmin\<close> was created (both
  variables of the environment set). A store call on the missing client is a TypeError.
  \<open>sendPaymentConfirmationEmail\<close> is neither defined nor imported in the file of the
  function, so the call of it, made when the update has returned a row with a
  \<open>user_id\<close>, is a ReferenceError. Both are caught at the end of \<open>serve\<close>, which
  logs and answers 500 with the message of the error (the message of the TypeError is
  shortened here); the update is written by then.
\<close>

definition serve_verify ::
  "env \<Rightarrow> (string \<Rightarrow> string \<Rightarrow> string) \<Rightarrow> string \<Rightarrow> bool \<Rightarrow> verify_body \<Rightarrow> db \<Rightarrow> payment outcome" where
  "serve_verify e hmac key_secret admin b s =
     (case (razorpay_order_id b, razorpay_payment_id b, razorpay_signature b) of
        (Some oid, Some pid, Some sg) \<Rightarrow>
          if oid = [] \<or> pid = [] \<or> sg = []
          then (respond 400 False ''Missing required fields'', [], s)
          else
            let expected = hmac key_secret (oid @ ''|'' @ pid) in
            if expected \<noteq> sg then
              (if \<not> admin
               then (respond 500 False ''Cannot read properties of null'', [''payments function error''], s)
               else
                 (case query (fault_at e 0) s
                         (Reply None None,
                          update_payments e
                            (\<lambda>p. p\<lparr>p_status := Failed, p_razorpay_payment_id := Some pid,
                                    p_razorpay_signature := Some sg\<rparr>) oid s) of
                    None \<Rightarrow> (respond 500 False ''request failed'', [''payments function error''], s)
                  | Some (_ :: payment reply, s') \<Rightarrow> (respond 400 False ''Invalid signature'', [], s')))
            else if admin then
              (case query (fault_at e 0) s
                      (update_payments_single e
                         (\<lambda>p. p\<lparr>p_status := Captured, p_razorpay_payment_id := Some pid,
                                 p_razorpay_signature := Some sg, p_verified_at := Some (now e)\<rparr>) oid s) of
                 None \<Rightarrow> (respond 500 False ''request failed'', [''payments function error''], s)
               | Some (r, s') \<Rightarrow>
                   (case rdata r of
                      Some updated \<Rightarrow>
                        if p_user_id updated \<noteq> []
                        then (respond 500 False ''sendPaymentConfirmationEmail is not defined'',
                              (if rerror r \<noteq> None then [''payments update error''] else []) @
                              [''payments function error''], s')
                        else (\<lparr>status = 200, success = True, message = None, resp_data = rdata r\<rparr>,
                              (if rerror r \<noteq> None then [''payments update error''] else []), s')
                    | None \<Rightarrow>
                        (\<lparr>status = 200, success = True, message = None, resp_data = rdata r\<rparr>,
                         (if rerror r \<noteq> None then [''payments update error''] else []), s')))
            else (\<lparr>status = 200, success = True, message = None, resp_data = None\<rparr>, [], s)
      | _ \<Rightarrow> (respond 400 False ''Missing required fields'', [], s))"

text \<open>
  \<open>serve\<close> on a request that its verify branch answers; \<open>None\<close> when another
  branch takes the request (those branches are not part of this model).
\<close>

definition serve ::
  "env \<Rightarrow> (string \<Rightarrow> string \<Rightarrow> string) \<Rightarrow> string \<Rightarrow> bool \<Rightarrow>
   string \<Rightarrow> string \<Rightarrow> string option \<Rightarrow> verify_body \<Rightarrow> db \<Rightarrow> payment outcome option" where
  "serve e hmac key_secret admin method pathname action b s =
     (case serve_branch method pathname action of
        Verify \<Rightarrow> Some (serve_verify e hmac key_secret admin b s)
      | _ \<Rightarrow> None)"

subsection \<open>POST /api/payments/webhook\<close>

record payment_entity =
  pe_id :: "string option"
  pe_order_id :: "string option"
  pe_method :: "string option"
  pe_email :: "string option"
  pe_contact :: "string option"

record payment_part =
  pp_entity :: "payment_entity option"

record order_entity =
  oe_id :: "string option"

record order_part =
  op_entity :: "order_entity option"

record webhook_payload =
  wp_payment :: "payment_part option"
  wp_order :: "order_part option"

record webhook_body =
  wb_event :: "string option"
  wb_payload :: "webhook_payload option"

definition truthy_str :: "string option \<Rightarrow> bool" where
  "truthy_str v = (case v of None \<Rightarrow> False | Some x \<Rightarrow> x \<noteq> [])"

text \<open>\<open>payload?.payment?.entity?.order_id || payload?.order?.entity?.id\<close>\<close>

definition webhook_order_id :: "webhook_payload \<Rightarrow> string option" where
  "webhook_order_id payload =
     (let a = (case wp_payment payload of
                 Some pp \<Rightarrow> (case pp_entity pp of Some ent \<Rightarrow> pe_order_id ent | None \<Rightarrow> None)
               | None \<Rightarrow> None);
          b = (case wp_order payload of
                 Some opt \<Rightarrow> (case op_entity opt of Some ent \<Rightarrow> oe_id ent | None \<Rightarrow> None)
               | None \<Rightarrow> None)
      in if truthy_str a then a else b)"

text \<open>\<open>req.body?.payload || {}\<close>\<close>

definition payload_or_empty :: "webhook_body \<Rightarrow> webhook_payload" where
  "payload_or_empty body =
     (case wb_payload body of Some pl \<Rightarrow> pl | None \<Rightarrow> \<lparr>wp_payment = None, wp_order = None\<rparr>)"

text \<open>
  The handler on the parsed body \<open>req.body\<close>. \<open>stringify\<close> is \<open>JSON.stringify\<close>,
  \<open>signature\<close> the header \<open>x-razorpay-signature\<close>, \<open>webhookSecret\<close> the variable
  RAZORPAY_WEBHOOK_SECRET. The result is the status sent, the console lines and the
  tables.
\<close>

definition webhook ::
  "env \<Rightarrow> (string \<Rightarrow> string \<Rightarrow> string) \<Rightarrow> (webhook_body \<Rightarrow> string) \<Rightarrow> string option \<Rightarrow>
   string option \<Rightarrow> webhook_body \<Rightarrow> db \<Rightarrow> nat \<times> string list \<times> db" where
  "webhook e hmac stringify webhookSecret signature body s =
     (if \<not> truthy_str webhookSecret then (200, [], s)
      else
        let expected = hmac (the webhookSecret) (stringify body) in
        if signature \<noteq> Some expected then (400, [], s)
        else
          let event = wb_event body;
              payload = payload_or_empty body;
              orderId = webhook_order_id payload
          in
          if event = Some ''payment.captured'' \<and> truthy_str orderId then
            (case wp_payment payload of
               None \<Rightarrow> (500, [''webhook error''], s)
             | Some pp \<Rightarrow>
                 (case pp_entity pp of
                    None \<Rightarrow> (500, [''webhook error''], s)
                  | Some ent \<Rightarrow>
                      (case query (fault_at e 0) s
                              (Reply None None,
                               update_payments e
                                 (\<lambda>p. p\<lparr>p_status := Captured,
                                         p_razorpay_payment_id := set_opt (pe_id ent) (p_razorpay_payment_id p),
                                         p_method := set_opt (pe_method ent) (p_method p),
                                         p_email := set_opt (pe_email ent) (p_email p),
                                         p_contact := set_opt (pe_contact ent) (p_contact p),
                                         p_verified_at := Some (now e)\<rparr>)
                                 (the orderId) s) of
                         None \<Rightarrow> (500, [''webhook error''], s)
                       | Some (_ :: payment reply, s') \<Rightarrow> (200, [], s'))))
          else (200, [], s))"

text \<open>
  The route on the bytes sent. \<open>parse\<close> is the body parser \<open>express.json\<close>, which
  runs before the handler: \<open>None\<close> is a body that it refuses, answered 400 by the
  parser's error; otherwise the handler sees the parsed body and never the bytes.
\<close>

definition post_payments_webhook ::
  "env \<Rightarrow> (string \<Rightarrow> string \<Rightarrow> string) \<Rightarrow> (string \<Rightarrow> webhook_body option) \<Rightarrow>
   (webhook_body \<Rightarrow> string) \<Rightarrow> string option \<Rightarrow> string option \<Rightarrow> string \<Rightarrow> db \<Rightarrow>
   nat \<times> string list \<times> db" where
  "post_payments_webhook e hmac parse stringify webhookSecret signature raw s =
     (case parse raw of
        None \<Rightarrow> (400, [], s)
      | Some body \<Rightarrow> webhook e hmac stringify webhookSecret signature body s)"

section \<open>Category types (router of /api/category-types)\<close>

subsection \<open>Store calls\<close>

text \<open>
  The constraints taken from the SQL scripts: UNIQUE on \<open>category_types.type_name\<close>,
  \<open>expense_categories.category\<close> and \<open>income_categories.name\<close>, NOT NULL on
  \<open>expense_categories.category\<close>, the foreign key of \<open>category_type_id\<close> (no cascade),
  the column defaults, and the triggers that stamp \<open>updated_at\<close>. Primary keys come from
  \<open>gen_random_uuid\<close> and are not checked. The NOT NULL that one migration puts on
  \<open>category_type_id\<close> is left out: the routes insert rows without that column.
\<close>

definition ct_select_by_name :: "string \<Rightarrow> db \<Rightarrow> category_type reply" where
  "ct_select_by_name tn s = single (filter (\<lambda>r. ct_type_name r = tn) (category_types s))"

definition ct_select_by_id :: "uuid \<Rightarrow> db \<Rightarrow> category_type reply" where
  "ct_select_by_id i s = single (filter (\<lambda>r. ct_id r = i) (category_types s))"

definition ct_insert :: "env \<Rightarrow> nat \<Rightarrow> string \<Rightarrow> string option \<Rightarrow> db \<Rightarrow> category_type reply \<times> db" where
  "ct_insert e k tn d s =
     (if list_ex (\<lambda>r. ct_type_name r = tn) (category_types s)
      then (Reply None (Some ''23505''), s)
      else
        let row = \<lparr>ct_id = gen_random_uuid e k, ct_type_name = tn, ct_description = d,
                   ct_created_at = now e, ct_updated_at = now e\<rparr>
        in (Reply (Some row) None, s\<lparr>category_types := category_types s @ [row]\<rparr>))"

definition ct_delete :: "uuid \<Rightarrow> db \<Rightarrow> unit reply \<times> db" where
  "ct_delete i s =
     (if list_ex (\<lambda>c. ec_category_type_id c = Some i) (expense_categories s)
         \<or> list_ex (\<lambda>c. ic_category_type_id c = Some i) (income_categories s)
      then (Reply None (Some ''23503''), s)
      else (Reply None None, s\<lparr>category_types := filter (\<lambda>r. ct_id r \<noteq> i) (category_types s)\<rparr>))"

definition type_exists :: "uuid option \<Rightarrow> db \<Rightarrow> bool" where
  "type_exists t s = (case t of None \<Rightarrow> True | Some i \<Rightarrow> list_ex (\<lambda>r. ct_id r = i) (category_types s))"

text \<open>The object handed to \<open>insert\<close> on \<open>expense_categories\<close>; \<open>None\<close> is a key left out.\<close>

record category_data =
  cd_category :: "string option"
  cd_icon :: "string option"
  cd_subcategories :: "subcategory list option"
  cd_category_type_id :: "uuid option"
  cd_is_active :: "bool option"
  cd_created_at :: "timestamp option"
  cd_updated_at :: "timestamp option"

definition ec_insert :: "env \<Rightarrow> nat \<Rightarrow> category_data \<Rightarrow> db \<Rightarrow> expense_category reply \<times> db" where
  "ec_insert e k cd s =
     (case cd_category cd of
        None \<Rightarrow> (Reply None (Some ''23502''), s)
      | Some c \<Rightarrow>
          if list_ex (\<lambda>r. ec_category r = c) (expense_categories s)
          then (Reply None (Some ''23505''), s)
          else if \<not> type_exists (cd_category_type_id cd) s
          then (Reply None (Some ''23503''), s)
          else
            let row = \<lparr>ec_id = gen_random_uuid e k, ec_category = c, ec_icon = cd_icon cd,
                       ec_subcategories = (case cd_subcategories cd of None \<Rightarrow> [] | Some l \<Rightarrow> l),
                       ec_category_type_id = cd_category_type_id cd,
                       ec_is_active = (case cd_is_active cd of None \<Rightarrow> True | Some b \<Rightarrow> b),
                       ec_created_at = (case cd_created_at cd of None \<Rightarrow> db_now e | Some t \<Rightarrow> t),
                       ec_updated_at = (case cd_updated_at cd of None \<Rightarrow> db_now e | Some t \<Rightarrow> t)\<rparr>
            in (Reply (Some row) None, s\<lparr>expense_categories := expense_categories s @ [row]\<rparr>))"

definition ic_insert ::
  "env \<Rightarrow> nat \<Rightarrow> string \<Rightarrow> uuid option \<Rightarrow> timestamp option \<Rightarrow> timestamp option \<Rightarrow> db \<Rightarrow>
   income_category reply \<times> db" where
  "ic_insert e k n t created updated s =
     (if list_ex (\<lambda>r. ic_name r = n) (income_categories s)
      then (Reply None (Some ''23505''), s)
      else if \<not> type_exists t s
      then (Reply None (Some ''23503''), s)
      else
        let row = \<lparr>ic_id = gen_random_uuid e k, ic_name = n, ic_category_type_id = t,
                   ic_created_at = (case created of None \<Rightarrow> db_now e | Some c \<Rightarrow> c),
                   ic_updated_at = (case updated of None \<Rightarrow> db_now e | Some u \<Rightarrow> u)\<rparr>
        in (Reply (Some row) None, s\<lparr>income_categories := income_categories s @ [row]\<rparr>))"

text \<open>The icon of a seeded category, the label emoji, as its UTF-8 bytes.\<close>

definition default_icon :: string where
  "default_icon = [CHR 0xF0, CHR 0x9F, CHR 0x8F, CHR 0xB7, CHR 0xEF, CHR 0xB8, CHR 0x8F]"

subsection \<open>POST /api/category-types\<close>

text \<open>
  The handler behind the validation. Store calls in order: the look-up by name (0), the
  insert (1), the two seeding inserts (2 and 3). The generated ids are numbered likewise.
  A result of a seeding insert is not looked at; only an exception reaches the
  \<open>catch\<close> that warns.
\<close>

definition seed_default_categories :: "env \<Rightarrow> string \<Rightarrow> category_type option \<Rightarrow> db \<Rightarrow> string list \<times> db" where
  "seed_default_categories e type_name created s1 =
     (case created of
        None \<Rightarrow> ([], s1)
      | Some row \<Rightarrow>
          if ct_id row = [] then ([], s1)
          else
            (case query (fault_at e 2) s1
                    (ec_insert e 2
                       \<lparr>cd_category = Some type_name, cd_icon = Some default_icon,
                        cd_subcategories = Some [], cd_category_type_id = Some (ct_id row),
                        cd_is_active = None, cd_created_at = Some (now e),
                        cd_updated_at = Some (now e)\<rparr> s1) of
               None \<Rightarrow> ([''Warning: failed to seed default categories for type''], s1)
             | Some (_, s2) \<Rightarrow>
                 (case query (fault_at e 3) s2
                         (ic_insert e 3 type_name (Some (ct_id row)) (Some (now e)) (Some (now e)) s2) of
                    None \<Rightarrow> ([''Warning: failed to seed default categories for type''], s2)
                  | Some (_, s3) \<Rightarrow> ([], s3))))"

definition create_category_type :: "env \<Rightarrow> string \<Rightarrow> string option \<Rightarrow> db \<Rightarrow> category_type outcome" where
  "create_category_type e type_name description s =
     (case query (fault_at e 0) s (ct_select_by_name type_name s, s) of
        None \<Rightarrow> (respond 500 False ''Internal server error'', [''Error in create category type route''], s)
      | Some (existing, _) \<Rightarrow>
          if rdata existing \<noteq> None
          then (respond 409 False ''Category type with this name already exists'', [], s)
          else
            (case query (fault_at e 1) s (ct_insert e 1 type_name description s) of
               None \<Rightarrow> (respond 500 False ''Internal server error'', [''Error in create category type route''], s)
             | Some (r, s1) \<Rightarrow>
                 if rerror r \<noteq> None
                 then (respond 500 False ''Failed to create category type'', [''Error creating category type''], s1)
                 else
                   let (lg, s3) = seed_default_categories e type_name (rdata r) s1
                   in (\<lparr>status = 201, success = True,
                        message = Some ''Category type created successfully'', resp_data = rdata r\<rparr>,
                       lg, s3)))"

definition post_category_types :: "env \<Rightarrow> jsval \<Rightarrow> jsval \<Rightarrow> db \<Rightarrow> category_type outcome" where
  "post_category_types e type_name description s =
     (case validateCategoryType type_name description of
        Inl (st, msg) \<Rightarrow> (respond st False msg, [], s)
      | Inr (tn, d) \<Rightarrow> create_category_type e tn d s)"

subsection \<open>DELETE /api/category-types/:id\<close>

text \<open>\<open>select('id').eq('category_type_id', id).limit(1)\<close> on the two category tables.\<close>

definition ec_using_type :: "uuid \<Rightarrow> db \<Rightarrow> expense_category list reply" where
  "ec_using_type i s =
     Reply (Some (take 1 (filter (\<lambda>c. ec_category_type_id c = Some i) (expense_categories s)))) None"

definition ic_using_type :: "uuid \<Rightarrow> db \<Rightarrow> income_category list reply" where
  "ic_using_type i s =
     Reply (Some (take 1 (filter (\<lambda>c. ic_category_type_id c = Some i) (income_categories s)))) None"

definition nonempty_rows :: "'a list reply \<Rightarrow> bool" where
  "nonempty_rows r = (case rdata r of None \<Rightarrow> False | Some rows \<Rightarrow> length rows > 0)"

definition delete_category_type :: "env \<Rightarrow> uuid \<Rightarrow> db \<Rightarrow> unit outcome" where
  "delete_category_type e i s =
     (if i = [] then (respond 400 False ''Category type ID is required'', [], s)
      else
        (case query (fault_at e 0) s (ct_select_by_id i s, s) of
           None \<Rightarrow> (respond 500 False ''Internal server error'', [''Error in delete category type route''], s)
         | Some (existingType, _) \<Rightarrow>
             if rdata existingType = None
             then (respond 404 False ''Category type not found'', [], s)
             else
               (case query (fault_at e 1) s (ec_using_type i s, s) of
                  None \<Rightarrow> (respond 500 False ''Internal server error'', [''Error in delete category type route''], s)
                | Some (categoriesUsingType, _) \<Rightarrow>
                    if nonempty_rows categoriesUsingType
                    then (respond 409 False
                            ''Cannot delete category type that is being used by expense categories'', [], s)
                    else
                      (case query (fault_at e 2) s (ic_using_type i s, s) of
                         None \<Rightarrow> (respond 500 False ''Internal server error'',
                                   [''Error in delete category type route''], s)
                       | Some (incomeCategoriesUsingType, _) \<Rightarrow>
                           if nonempty_rows incomeCategoriesUsingType
                           then (respond 409 False
                                   ''Cannot delete category type that is being used by income categories'', [], s)
                           else
                             (case query (fault_at e 3) s (ct_delete i s) of
                                None \<Rightarrow> (respond 500 False ''Internal server error'',
                                          [''Error in delete category type route''], s)
                              | Some (r, s') \<Rightarrow>
                                  if rerror r \<noteq> None
                                  then (respond 500 False ''Failed to delete category type'',
                                        [''Error deleting category type''], s')
                                  else (respond 200 True ''Category type deleted successfully'', [], s'))))))"

section \<open>Income subcategories (POST /api/income-subcategories)\<close>

text \<open>validateIncomeSubcategory: \<open>Inr\<close> carries the category id, the trimmed name and the flag.\<close>

definition validateIncomeSubcategory ::
  "jsval \<Rightarrow> jsval \<Rightarrow> jsval \<Rightarrow> (nat \<times> string) + (uuid \<times> string \<times> bool)" where
  "validateIncomeSubcategory category_id name is_recurring =
     (case category_id of
        JStr cid \<Rightarrow>
          if \<not> truthy category_id
          then Inl (400, ''Category ID is required and must be a valid UUID'')
          else
            (case name of
               JStr n \<Rightarrow>
                 if \<not> truthy name \<or> length (trim n) = 0
                 then Inl (400, ''Subcategory name is required and must be a non-empty string'')
                 else if length (trim n) > 100
                 then Inl (400, ''Subcategory name must be 100 characters or less'')
                 else
                   (case is_recurring of
                      JBool b \<Rightarrow> Inr (cid, trim n, b)
                    | _ \<Rightarrow> Inl (400, ''is_recurring must be a boolean value''))
             | _ \<Rightarrow> Inl (400, ''Subcategory name is required and must be a non-empty string''))
      | _ \<Rightarrow> Inl (400, ''Category ID is required and must be a valid UUID''))"

definition ic_select_by_id :: "uuid \<Rightarrow> db \<Rightarrow> income_category reply" where
  "ic_select_by_id i s = single (filter (\<lambda>r. ic_id r = i) (income_categories s))"

definition isc_select :: "uuid \<Rightarrow> string \<Rightarrow> db \<Rightarrow> income_subcategory reply" where
  "isc_select cid n s =
     single (filter (\<lambda>r. isc_category_id r = cid \<and> isc_name r = n) (income_subcategories s))"

text \<open>
  The insert under UNIQUE(category_id, name) and the foreign key of \<open>category_id\<close>.
\<close>

definition isc_insert :: "env \<Rightarrow> nat \<Rightarrow> uuid \<Rightarrow> string \<Rightarrow> bool \<Rightarrow> db \<Rightarrow> income_subcategory reply \<times> db" where
  "isc_insert e k cid n b s =
     (if list_ex (\<lambda>r. isc_category_id r = cid \<and> isc_name r = n) (income_subcategories s)
      then (Reply None (Some ''23505''), s)
      else if \<not> list_ex (\<lambda>r. ic_id r = cid) (income_categories s)
      then (Reply None (Some ''23503''), s)
      else
        let row = \<lparr>isc_id = gen_random_uuid e k, isc_category_id = cid, isc_name = n,
                   isc_is_recurring = b, isc_created_at = db_now e, isc_updated_at = db_now e\<rparr>
        in (Reply (Some row) None, s\<lparr>income_subcategories := income_subcategories s @ [row]\<rparr>))"

definition create_income_subcategory ::
  "env \<Rightarrow> uuid \<Rightarrow> string \<Rightarrow> bool \<Rightarrow> db \<Rightarrow> income_subcategory outcome" where
  "create_income_subcategory e category_id name is_recurring s =
     (case query (fault_at e 0) s (ic_select_by_id category_id s, s) of
        None \<Rightarrow> (respond 500 False ''Internal server error'',
                  [''Error in create income subcategory route''], s)
      | Some (category, _) \<Rightarrow>
          if rdata category = None
          then (respond 404 False ''Income category not found'', [], s)
          else
            (case query (fault_at e 1) s (isc_select category_id name s, s) of
               None \<Rightarrow> (respond 500 False ''Internal server error'',
                         [''Error in create income subcategory route''], s)
             | Some (existingSubcategory, _) \<Rightarrow>
                 if rdata existingSubcategory \<noteq> None
                 then (respond 409 False
                         ''Income subcategory with this name already exists for this category'', [], s)
                 else
                   (case query (fault_at e 2) s (isc_insert e 2 category_id name is_recurring s) of
                      None \<Rightarrow> (respond 500 False ''Internal server error'',
                                [''Error in create income subcategory route''], s)
                    | Some (r, s') \<Rightarrow>
                        if rerror r \<noteq> None
                        then (respond 500 False ''Failed to create income subcategory'',
                              [''Error creating income subcategory''], s')
                        else (\<lparr>status = 201, success = True,
                               message = Some ''Income subcategory created successfully'',
                               resp_data = rdata r\<rparr>, [], s'))))"

definition post_income_subcategories ::
  "env \<Rightarrow> jsval \<Rightarrow> jsval \<Rightarrow> jsval \<Rightarrow> db \<Rightarrow> income_subcategory outcome" where
  "post_income_subcategories e category_id name is_recurring s =
     (case validateIncomeSubcategory category_id name is_recurring of
        Inl (st, msg) \<Rightarrow> (respond st False msg, [], s)
      | Inr (cid, n, b) \<Rightarrow> create_income_subcategory e cid n b s)"

section \<open>ExpenseCategoriesService\<close>

text \<open>
  A method either returns (\<open>Inr\<close>) or throws (\<open>Inl\<close>, the error). An error of a
  store call is logged and thrown, caught by the method's own \<open>catch\<close>, logged again
  and thrown on.
\<close>

type_synonym 'a service_result = "(string + 'a) \<times> string list \<times> db"

definition ec_update :: "env \<Rightarrow> (expense_category \<Rightarrow> expense_category) \<Rightarrow> uuid \<Rightarrow> db \<Rightarrow> db" where
  "ec_update e f cid s =
     s\<lparr>expense_categories :=
         map (\<lambda>c. if ec_id c = cid then (f c)\<lparr>ec_updated_at := db_now e\<rparr> else c)
           (expense_categories s)\<rparr>"

definition ec_update_single ::
  "env \<Rightarrow> (expense_category \<Rightarrow> expense_category) \<Rightarrow> uuid \<Rightarrow> db \<Rightarrow> expense_category reply \<times> db" where
  "ec_update_single e f cid s =
     (let s' = ec_update e f cid s;
          r = single (filter (\<lambda>c. ec_id c = cid) (expense_categories s'))
      in (r, if rerror r = None then s' else s))"

definition ec_select_by_id :: "uuid \<Rightarrow> db \<Rightarrow> expense_category reply" where
  "ec_select_by_id cid s = single (filter (\<lambda>c. ec_id c = cid) (expense_categories s))"

text \<open>\<open>order('category')\<close> is taken as the order of the code units.\<close>

definition getAllCategories :: "env \<Rightarrow> db \<Rightarrow> expense_category list service_result" where
  "getAllCategories e s =
     (case query (fault_at e 0) s
             (Reply (Some (sort_key ec_category (filter ec_is_active (expense_categories s)))) None, s) of
        None \<Rightarrow> (Inl ''exception'', [''Exception in getAllCategories''], s)
      | Some (r, _) \<Rightarrow>
          (case rerror r of
             Some err \<Rightarrow> (Inl err, [''Error fetching expense categories'', ''Exception in getAllCategories''], s)
           | None \<Rightarrow> (Inr (case rdata r of None \<Rightarrow> [] | Some rows \<Rightarrow> rows), [], s)))"


definition addCategory :: "env \<Rightarrow> category_data \<Rightarrow> db \<Rightarrow> expense_category option service_result" where
  "addCategory e categoryData s =
     (case query (fault_at e 0) s (ec_insert e 0 categoryData s) of
        None \<Rightarrow> (Inl ''exception'', [''Exception in addCategory''], s)
      | Some (r, s') \<Rightarrow>
          (case rerror r of
             Some err \<Rightarrow> (Inl err, [''Error adding category'', ''Exception in addCategory''], s')
           | None \<Rightarrow> (Inr (rdata r), [], s')))"

definition deleteCategory :: "env \<Rightarrow> uuid \<Rightarrow> db \<Rightarrow> bool service_result" where
  "deleteCategory e categoryId s =
     (case query (fault_at e 0) s
             (Reply None None, ec_update e (\<lambda>c. c\<lparr>ec_is_active := False\<rparr>) categoryId s) of
        None \<Rightarrow> (Inl ''exception'', [''Exception in deleteCategory''], s)
      | Some (r :: unit reply, s') \<Rightarrow>
          (case rerror r of
             Some err \<Rightarrow> (Inl err, [''Error deleting category'', ''Exception in deleteCategory''], s')
           | None \<Rightarrow> (Inr True, [], s')))"

text \<open>
  The three methods on the embedded list share one shape: read the row, compute the new
  list, write it back. \<open>fetchMsg\<close>, \<open>errMsg\<close> and \<open>excMsg\<close> are the console
  lines of the method.
\<close>

definition rewrite_subcategories ::
  "env \<Rightarrow> string \<Rightarrow> string \<Rightarrow> string \<Rightarrow> (subcategory list \<Rightarrow> subcategory list) \<Rightarrow> uuid \<Rightarrow> db \<Rightarrow>
   expense_category option service_result" where
  "rewrite_subcategories e fetchMsg errMsg excMsg f categoryId s =
     (case query (fault_at e 0) s (ec_select_by_id categoryId s, s) of
        None \<Rightarrow> (Inl ''exception'', [excMsg], s)
      | Some (fetched, _) \<Rightarrow>
          (case rerror fetched of
             Some fetchError \<Rightarrow> (Inl fetchError, [fetchMsg, excMsg], s)
           | None \<Rightarrow>
               (case rdata fetched of
                  None \<Rightarrow> (Inl ''TypeError'', [excMsg], s)
                | Some category \<Rightarrow>
                    let updatedSubcategories = f (ec_subcategories category) in
                    (case query (fault_at e 1) s
                            (ec_update_single e (\<lambda>c. c\<lparr>ec_subcategories := updatedSubcategories\<rparr>)
                               categoryId s) of
                       None \<Rightarrow> (Inl ''exception'', [excMsg], s)
                     | Some (r, s') \<Rightarrow>
                         (case rerror r of
                            Some err \<Rightarrow> (Inl err, [errMsg, excMsg], s')
                          | None \<Rightarrow> (Inr (rdata r), [], s'))))))"

definition addSubcategory :: "env \<Rightarrow> uuid \<Rightarrow> subcategory \<Rightarrow> db \<Rightarrow> expense_category option service_result" where
  "addSubcategory e categoryId subcategoryData s =
     rewrite_subcategories e ''Error fetching category for subcategory addition''
       ''Error adding subcategory'' ''Exception in addSubcategory''
       (\<lambda>subs. subs @ [subcategoryData]) categoryId s"

text \<open>The object \<open>updateData\<close>: \<open>None\<close> is a key that it does not carry.\<close>

record sub_update =
  u_name :: "string option"
  u_icon :: "string option option"
  u_isRecurring :: "bool option"
  u_frequency :: "string option option"

text \<open>\<open>{ ...sub, ...updateData }\<close>\<close>

definition spread :: "subcategory \<Rightarrow> sub_update \<Rightarrow> subcategory" where
  "spread sub u =
     \<lparr>sub_name = (case u_name u of None \<Rightarrow> sub_name sub | Some n \<Rightarrow> n),
      sub_icon = (case u_icon u of None \<Rightarrow> sub_icon sub | Some i \<Rightarrow> i),
      sub_isRecurring = (case u_isRecurring u of None \<Rightarrow> sub_isRecurring sub | Some b \<Rightarrow> b),
      sub_frequency = (case u_frequency u of None \<Rightarrow> sub_frequency sub | Some f \<Rightarrow> f)\<rparr>"

definition updateSubcategory ::
  "env \<Rightarrow> uuid \<Rightarrow> string \<Rightarrow> sub_update \<Rightarrow> db \<Rightarrow> expense_category option service_result" where
  "updateSubcategory e categoryId subcategoryName updateData s =
     rewrite_subcategories e ''Error fetching category for subcategory update''
       ''Error updating subcategory'' ''Exception in updateSubcategory''
       (map (\<lambda>sub. if sub_name sub = subcategoryName then spread sub updateData else sub)) categoryId s"

definition deleteSubcategory ::
  "env \<Rightarrow> uuid \<Rightarrow> string \<Rightarrow> db \<Rightarrow> expense_category option service_result" where
  "deleteSubcategory e categoryId subcategoryName s =
     rewrite_subcategories e ''Error fetching category for subcategory deletion''
       ''Error deleting subcategory'' ''Exception in deleteSubcategory''
       (filter (\<lambda>sub. sub_name sub \<noteq> subcategoryName)) categoryId s"

text \<open>The invariant of the embedded lists: no name twice within one category.\<close>

definition sub_names_unique :: "db \<Rightarrow> bool" where
  "sub_names_unique s = list_all (\<lambda>c. distinct (map sub_name (ec_subcategories c))) (expense_categories s)"

definition db_of :: "'a \<times> string list \<times> db \<Rightarrow> db" where
  "db_of r = snd (snd r)"

section \<open>Example data\<close>

definition env0 :: env where
  "env0 = \<lparr>now = ''2025-06-01T10:00:00.000Z'', db_now = ''2025-06-01 10:00:01+00'',
           gen_random_uuid = (\<lambda>k. replicate (Suc k) CHR ''u''), faults = []\<rparr>"

definition empty_db :: db where
  "empty_db = \<lparr>category_types = [], expense_categories = [], income_categories = [],
               income_subcategories = [], expenses = [], payments = []\<rparr>"

definition fuel :: subcategory where
  "fuel = \<lparr>sub_name = ''Fuel'', sub_icon = None, sub_isRecurring = False, sub_frequency = None\<rparr>"

definition parking :: subcategory where
  "parking = \<lparr>sub_name = ''Parking'', sub_icon = None, sub_isRecurring = False, sub_frequency = None\<rparr>"

definition transport :: expense_category where
  "transport = \<lparr>ec_id = ''c1'', ec_category = ''Transport'', ec_icon = None,
               ec_subcategories = [fuel], ec_category_type_id = None, ec_is_active = True,
               ec_created_at = ''2024-01-01 00:00:00+00'', ec_updated_at = ''2024-01-01 00:00:00+00''\<rparr>"

definition db_transport :: db where
  "db_transport = empty_db\<lparr>expense_categories := [transport]\<rparr>"

section \<open>Statements about payments\<close>

text \<open>
  Between two states, the tables other than \<open>payments\<close> are the same, the payments
  with another order id are the same rows, and each payment with the order id \<open>oid\<close>
  has got the status \<open>st\<close> and kept its identity, owner, amount and order id.
\<close>

definition marked :: "pay_status \<Rightarrow> string \<Rightarrow> db \<Rightarrow> db \<Rightarrow> bool" where
  "marked st oid s s' =
     (category_types s' = category_types s \<and> expense_categories s' = expense_categories s \<and>
      income_categories s' = income_categories s \<and> income_subcategories s' = income_subcategories s \<and>
      expenses s' = expenses s \<and>
      list_all2
        (\<lambda>p p'. if p_razorpay_order_id p = Some oid
                 then p_status p' = st \<and> p_razorpay_order_id p' = Some oid \<and> p_id p' = p_id p \<and>
                      p_user_id p' = p_user_id p \<and> p_amount p' = p_amount p
                 else p' = p)
        (payments s) (payments s'))"

text \<open>A stand-in for the HMAC in examples: different messages, different digests.\<close>

definition toy_hmac :: "string \<Rightarrow> string \<Rightarrow> string" where
  "toy_hmac key msg = ''mac('' @ key @ '','' @ msg @ '')''"

definition pay1 :: payment where
  "pay1 = \<lparr>p_id = ''p1'', p_user_id = ''user1'', p_amount = 250, p_status = Created,
           p_razorpay_order_id = Some ''order_1'', p_razorpay_payment_id = None,
           p_razorpay_signature = None, p_method = None, p_email = None, p_contact = None,
           p_verified_at = None, p_updated_at = ''2025-05-31 09:00:00+00''\<rparr>"

definition pay2 :: payment where
  "pay2 = \<lparr>p_id = ''p2'', p_user_id = ''user2'', p_amount = 90, p_status = Created,
           p_razorpay_order_id = Some ''order_2'', p_razorpay_payment_id = None,
           p_razorpay_signature = None, p_method = None, p_email = None, p_contact = None,
           p_verified_at = None, p_updated_at = ''2025-05-31 09:30:00+00''\<rparr>"

definition db_pay :: db where
  "db_pay = empty_db\<lparr>payments := [pay1, pay2]\<rparr>"

definition captured_event :: webhook_body where
  "captured_event =
     \<lparr>wb_event = Some ''payment.captured'',
      wb_payload = Some \<lparr>wp_payment = Some \<lparr>pp_entity = Some
          \<lparr>pe_id = Some ''pay_9'', pe_order_id = Some ''order_1'', pe_method = Some ''upi'',
           pe_email = None, pe_contact = None\<rparr>\<rparr>, wp_order = None\<rparr>\<rparr>"

text \<open>
  The captured event as JSON text, once as \<open>JSON.stringify\<close> writes it and once as a
  sender may write it, with a space after the first brace. The body parser reads both as
  the same object. \<open>toy_parse\<close> and \<open>toy_stringify\<close> stand for \<open>express.json\<close> and
  \<open>JSON.stringify\<close> on these texts.
\<close>

definition dq :: string where
  "dq = [CHR 0x22]"

definition event_json_tail :: string where
  "event_json_tail =
     dq @ ''event'' @ dq @ '':'' @ dq @ ''payment.captured'' @ dq @ '','' @
     dq @ ''payload'' @ dq @ '':{'' @ dq @ ''payment'' @ dq @ '':{'' @ dq @ ''entity'' @ dq @ '':{'' @
     dq @ ''id'' @ dq @ '':'' @ dq @ ''pay_9'' @ dq @ '','' @
     dq @ ''order_id'' @ dq @ '':'' @ dq @ ''order_1'' @ dq @ '','' @
     dq @ ''method'' @ dq @ '':'' @ dq @ ''upi'' @ dq @ ''}}}}''"

definition compact_raw :: string where
  "compact_raw = ''{'' @ event_json_tail"

definition spaced_raw :: string where
  "spaced_raw = ''{ '' @ event_json_tail"

definition toy_parse :: "string \<Rightarrow> webhook_body option" where
  "toy_parse raw = (if raw = compact_raw \<or> raw = spaced_raw then Some captured_event else None)"

definition toy_stringify :: "webhook_body \<Rightarrow> string" where
  "toy_stringify body = (if body = captured_event then compact_raw else ''{}'')"

text \<open>The payments keyed by an order id.\<close>

definition keyed :: "string \<Rightarrow> db \<Rightarrow> payment list" where
  "keyed oid s = filter (\<lambda>p. p_razorpay_order_id p = Some oid) (payments s)"

text \<open>
  What the specification says of a verification, for an outcome \<open>out\<close> reached from
  the tables \<open>s\<close>: on the right signature a success response, and the one payment keyed
  by the order id captured, stamped with \<open>verified_at\<close> and returned; on any other
  signature the response 400 \<open>Invalid signature\<close> and the payments with that order id
  failed.
\<close>

definition verified_as_specified ::
  "env \<Rightarrow> (string \<Rightarrow> string \<Rightarrow> string) \<Rightarrow> string \<Rightarrow> string \<Rightarrow> string \<Rightarrow> string \<Rightarrow> db \<Rightarrow>
   payment outcome \<Rightarrow> bool" where
  "verified_as_specified e hmac key_secret oid pid sg s out =
     (if sg = hmac key_secret (oid @ ''|'' @ pid)
      then status (fst out) = 200 \<and> success (fst out) \<and>
           (\<forall>p. keyed oid s = [p] \<longrightarrow>
              marked Captured oid s (db_of out) \<and>
              (\<exists>p'. resp_data (fst out) = Some p' \<and> keyed oid (db_of out) = [p'] \<and>
                    p_id p' = p_id p \<and> p_status p' = Captured \<and> p_verified_at p' = Some (now e)))
      else fst out = respond 400 False ''Invalid signature'' \<and> marked Failed oid s (db_of out))"

text \<open>
  The same for the edge function, without the response to the right signature: the one
  payment keyed by the order id captured and stamped; on any other signature the response
  400 \<open>Invalid signature\<close> and the payments with that order id failed.
\<close>

definition edge_verified ::
  "env \<Rightarrow> (string \<Rightarrow> string \<Rightarrow> string) \<Rightarrow> string \<Rightarrow> string \<Rightarrow> string \<Rightarrow> string \<Rightarrow> db \<Rightarrow>
   payment outcome \<Rightarrow> bool" where
  "edge_verified e hmac key_secret oid pid sg s out =
     (if sg = hmac key_secret (oid @ ''|'' @ pid)
      then (\<forall>p. keyed oid s = [p] \<longrightarrow>
              marked Captured oid s (db_of out) \<and>
              (\<exists>p'. keyed oid (db_of out) = [p'] \<and>
                    p_id p' = p_id p \<and> p_status p' = Captured \<and> p_verified_at p' = Some (now e)))
      else fst out = respond 400 False ''Invalid signature'' \<and> marked Failed oid s (db_of out))"

definition order1_body :: "string \<Rightarrow> verify_body" where
  "order1_body sg = \<lparr>razorpay_order_id = Some ''order_1'', razorpay_payment_id = Some ''pay_9'',
                     razorpay_signature = Some sg\<rparr>"

definition good_sig :: string where
  "good_sig = toy_hmac ''key_secret'' ''order_1|pay_9''"

definition any_token :: "string \<Rightarrow> bool" where
  "any_token t = True"


section \<open>Statements about category types\<close>

text \<open>Some expense category or some income category carries the type id.\<close>

definition referenced :: "uuid \<Rightarrow> db \<Rightarrow> bool" where
  "referenced i s =
     (list_ex (\<lambda>c. ec_category_type_id c = Some i) (expense_categories s) \<or>
      list_ex (\<lambda>c. ic_category_type_id c = Some i) (income_categories s))"

definition type_expense :: category_type where
  "type_expense = \<lparr>ct_id = ''t1'', ct_type_name = ''Expense'', ct_description = None,
                   ct_created_at = ''2024-01-01 00:00:00+00'', ct_updated_at = ''2024-01-01 00:00:00+00''\<rparr>"

definition type_savings :: category_type where
  "type_savings = \<lparr>ct_id = ''t2'', ct_type_name = ''Savings'', ct_description = None,
                   ct_created_at = ''2024-01-01 00:00:00+00'', ct_updated_at = ''2024-01-01 00:00:00+00''\<rparr>"

definition salary :: income_category where
  "salary = \<lparr>ic_id = ''i1'', ic_name = ''Salary'', ic_category_type_id = None,
             ic_created_at = ''2024-01-01 00:00:00+00'', ic_updated_at = ''2024-01-01 00:00:00+00''\<rparr>"

definition rental :: income_category where
  "rental = \<lparr>ic_id = ''i2'', ic_name = ''Rental Income'', ic_category_type_id = None,
             ic_created_at = ''2024-01-01 00:00:00+00'', ic_updated_at = ''2024-01-01 00:00:00+00''\<rparr>"

definition db_types :: db where
  "db_types = empty_db\<lparr>category_types := [type_expense, type_savings],
                       expense_categories := [transport\<lparr>ec_category_type_id := Some ''t1''\<rparr>],
                       income_categories := [salary, rental]\<rparr>"

section \<open>Statements about income subcategories\<close>

definition category_exists :: "uuid \<Rightarrow> db \<Rightarrow> bool" where
  "category_exists cid s = (length (filter (\<lambda>r. ic_id r = cid) (income_categories s)) = 1)"

definition subs_named :: "uuid \<Rightarrow> string \<Rightarrow> db \<Rightarrow> income_subcategory list" where
  "subs_named cid n s = filter (\<lambda>r. isc_category_id r = cid \<and> isc_name r = n) (income_subcategories s)"

definition already_exists :: "db \<Rightarrow> income_subcategory outcome" where
  "already_exists s =
     (respond 409 False ''Income subcategory with this name already exists for this category'', [], s)"

definition db_income :: db where
  "db_income = empty_db\<lparr>income_categories := [salary, rental]\<rparr>"

section \<open>Example data for the expense categories\<close>

definition fuel_bill :: expense where
  "fuel_bill = \<lparr>ex_id = ''x1'', ex_user_id = ''user1'', ex_amount = 40, ex_category = ''Transport'',
                ex_subcategory = Some ''Fuel''\<rparr>"

definition db_spend :: db where
  "db_spend = db_transport\<lparr>expenses := [fuel_bill]\<rparr>"

definition pets :: category_data where
  "pets = \<lparr>cd_category = Some ''Pets'', cd_icon = None, cd_subcategories = Some [fuel],
           cd_category_type_id = None, cd_is_active = None, cd_created_at = None,
           cd_updated_at = None\<rparr>"

definition pets_row :: expense_category where
  "pets_row = \<lparr>ec_id = ''u'', ec_category = ''Pets'', ec_icon = None, ec_subcategories = [fuel],
               ec_category_type_id = None, ec_is_active = True,
               ec_created_at = ''2025-06-01 10:00:01+00'', ec_updated_at = ''2025-06-01 10:00:01+00''\<rparr>"

section \<open>Statements about errors of the store\<close>






section \<open>Facts about the store calls\<close>

lemma single_data: "rdata (single xs) = Some r \<Longrightarrow> xs = [r]"
  by (auto simp: single_def split: list.splits)

lemma single_one: "single [r] = Reply (Some r) None"
  by (simp add: single_def)

lemma filter_single_mem: "filter P xs = [r] \<Longrightarrow> r \<in> set xs \<and> P r"
proof -
  assume a: "filter P xs = [r]"
  have "r \<in> set (filter P xs)" by (simp add: a)
  then show ?thesis by simp
qed

lemma trim_Nil: "trim [] = []"
  by (simp add: trim_def)

section \<open>The embedded subcategory list\<close>

lemma rewrite_preserves:
  assumes inv: "sub_names_unique s"
    and f: "\<And>c. c \<in> set (expense_categories s) \<Longrightarrow> ec_id c = cid \<Longrightarrow>
              distinct (map sub_name (f (ec_subcategories c)))"
  shows "sub_names_unique (db_of (rewrite_subcategories e m1 m2 m3 f cid s))"
proof -
  have upd: "sub_names_unique (ec_update e (\<lambda>c. c\<lparr>ec_subcategories := f (ec_subcategories c0)\<rparr>) cid s)"
    if "c0 \<in> set (expense_categories s)" "ec_id c0 = cid" for c0
    using inv f[OF that] by (auto simp: sub_names_unique_def ec_update_def list_all_iff)
  show ?thesis
    using inv upd
    by (auto simp: rewrite_subcategories_def db_of_def query_def ec_select_by_id_def
          ec_update_single_def Let_def
        dest!: single_data filter_single_mem
        split: option.splits fault.splits prod.splits if_splits)
qed

lemma distinct_rename:
  "distinct xs \<Longrightarrow> nn = n \<or> nn \<notin> set xs \<Longrightarrow> distinct (map (\<lambda>x. if x = n then nn else x) xs)"
  by (induction xs) auto

lemma names_after_update:
  "map sub_name (map (\<lambda>sub. if sub_name sub = n then spread sub u else sub) subs) =
   (case u_name u of None \<Rightarrow> map sub_name subs
    | Some nn \<Rightarrow> map (\<lambda>x. if x = n then nn else x) (map sub_name subs))"
  by (induction subs) (auto simp: spread_def split: option.splits)

lemma inv_row:
  "sub_names_unique s \<Longrightarrow> c \<in> set (expense_categories s) \<Longrightarrow> distinct (map sub_name (ec_subcategories c))"
  by (simp add: sub_names_unique_def list_all_iff)

text \<open>
  Claim C7, as the code has it. From a state in which no category lists a subcategory
  name twice: deleteSubcategory always leads to such a state; addSubcategory does when the
  name of the new subcategory is not yet in the list of the category addressed;
  updateSubcategory does when \<open>updateData\<close> carries no name, or carries the name being
  updated, or carries a name that is not yet in the list. This holds whatever the store
  calls do (answer, return an error or throw).
\<close>

theorem subcategory_names_stay_unique:
  "sub_names_unique s \<Longrightarrow>
     sub_names_unique (db_of (deleteSubcategory e cid n s)) \<and>
     ((\<forall>c \<in> set (expense_categories s). ec_id c = cid \<longrightarrow>
          sub_name sd \<notin> set (map sub_name (ec_subcategories c))) \<longrightarrow>
        sub_names_unique (db_of (addSubcategory e cid sd s))) \<and>
     ((case u_name u of None \<Rightarrow> True
       | Some nn \<Rightarrow> nn = n \<or> (\<forall>c \<in> set (expense_categories s). ec_id c = cid \<longrightarrow>
                                 nn \<notin> set (map sub_name (ec_subcategories c)))) \<longrightarrow>
        sub_names_unique (db_of (updateSubcategory e cid n u s)))"
proof (intro conjI impI)
  assume inv: "sub_names_unique s"
  show "sub_names_unique (db_of (deleteSubcategory e cid n s))"
    unfolding deleteSubcategory_def
    by (rule rewrite_preserves[OF inv]) (use inv_row[OF inv] in \<open>simp add: distinct_map_filter\<close>)
next
  assume inv: "sub_names_unique s"
    and fresh: "\<forall>c \<in> set (expense_categories s). ec_id c = cid \<longrightarrow>
          sub_name sd \<notin> set (map sub_name (ec_subcategories c))"
  show "sub_names_unique (db_of (addSubcategory e cid sd s))"
    unfolding addSubcategory_def
    by (rule rewrite_preserves[OF inv]) (use inv_row[OF inv] fresh in auto)
next
  assume inv: "sub_names_unique s"
    and ok: "case u_name u of None \<Rightarrow> True
       | Some nn \<Rightarrow> nn = n \<or> (\<forall>c \<in> set (expense_categories s). ec_id c = cid \<longrightarrow>
                                 nn \<notin> set (map sub_name (ec_subcategories c)))"
  show "sub_names_unique (db_of (updateSubcategory e cid n u s))"
    unfolding updateSubcategory_def
  proof (rule rewrite_preserves[OF inv])
    fix c assume c: "c \<in> set (expense_categories s)" "ec_id c = cid"
    have d: "distinct (map sub_name (ec_subcategories c))" by (rule inv_row[OF inv c(1)])
    show "distinct (map sub_name
            (map (\<lambda>sub. if sub_name sub = n then spread sub u else sub) (ec_subcategories c)))"
    proof (cases "u_name u")
      case None
      then show ?thesis using d by (simp add: names_after_update del: map_map)
    next
      case (Some nn)
      with ok c have "nn = n \<or> nn \<notin> set (map sub_name (ec_subcategories c))" by auto
      then show ?thesis using d Some by (simp add: names_after_update distinct_rename del: map_map)
    qed
  qed
qed

text \<open>
  Claim C7 as stated fails: the category Transport lists Fuel once; adding a subcategory
  named Fuel again is accepted, and the list then holds the name twice.
\<close>

theorem add_subcategory_duplicates_name:
  "sub_names_unique db_transport \<and>
   \<not> sub_names_unique (db_of (addSubcategory env0 ''c1'' fuel db_transport))"
  by (simp add: sub_names_unique_def db_transport_def empty_db_def transport_def fuel_def env0_def
      addSubcategory_def rewrite_subcategories_def db_of_def query_def fault_at_def ec_select_by_id_def
      ec_update_single_def ec_update_def single_def Let_def)

text \<open>
  The theorem of C7 at Transport: deleting Fuel, adding Parking (the list becomes Fuel,
  Parking) and renaming Fuel to Petrol.
\<close>

theorem subcategory_names_stay_unique_witness:
  "sub_names_unique db_transport \<and>
   sub_names_unique (db_of (deleteSubcategory env0 ''c1'' ''Fuel'' db_transport)) \<and>
   map (\<lambda>c. map sub_name (ec_subcategories c))
     (expense_categories (db_of (addSubcategory env0 ''c1'' parking db_transport)))
      = [[''Fuel'', ''Parking'']] \<and>
   sub_names_unique (db_of (addSubcategory env0 ''c1'' parking db_transport)) \<and>
   sub_names_unique (db_of (updateSubcategory env0 ''c1'' ''Fuel''
        \<lparr>u_name = Some ''Petrol'', u_icon = None, u_isRecurring = None, u_frequency = None\<rparr>
        db_transport))"
proof -
  have inv: "sub_names_unique db_transport"
    by (simp add: sub_names_unique_def db_transport_def empty_db_def transport_def fuel_def)
  have fresh: "\<forall>c \<in> set (expense_categories db_transport). ec_id c = ''c1'' \<longrightarrow>
          sub_name parking \<notin> set (map sub_name (ec_subcategories c))"
    by (simp add: db_transport_def empty_db_def transport_def fuel_def parking_def)
  have ok: "case u_name \<lparr>u_name = Some ''Petrol'', u_icon = None, u_isRecurring = None,
                          u_frequency = None\<rparr> of None \<Rightarrow> True
       | Some nn \<Rightarrow> nn = ''Fuel'' \<or> (\<forall>c \<in> set (expense_categories db_transport). ec_id c = ''c1'' \<longrightarrow>
                                 nn \<notin> set (map sub_name (ec_subcategories c)))"
    by (simp add: db_transport_def empty_db_def transport_def fuel_def)
  have shape: "map (\<lambda>c. map sub_name (ec_subcategories c))
       (expense_categories (db_of (addSubcategory env0 ''c1'' parking db_transport)))
      = [[''Fuel'', ''Parking'']]"
    by (simp add: db_transport_def empty_db_def transport_def fuel_def parking_def env0_def
      addSubcategory_def rewrite_subcategories_def db_of_def query_def fault_at_def ec_select_by_id_def
      ec_update_single_def ec_update_def single_def Let_def)
  from subcategory_names_stay_unique[OF inv, of env0 "''c1''" "''Fuel''" parking
      "\<lparr>u_name = Some ''Petrol'', u_icon = None, u_isRecurring = None, u_frequency = None\<rparr>"]
  show ?thesis using inv fresh ok shape by blast
qed

section \<open>Validation of a category type\<close>

lemma validate_accepts_iff:
  "accepted (validateCategoryType tn d) \<longleftrightarrow> type_name_ok tn \<and> (truthy d \<longrightarrow> description_ok d)"
  by (auto simp: accepted_def validateCategoryType_def type_name_ok_def description_ok_def Let_def trim_Nil
      split: jsval.splits)

lemma validate_rejects:
  "validateCategoryType tn d = Inl (st, msg) \<Longrightarrow>
     st = 400 \<and> (if type_name_ok tn then take 11 msg = ''Description'' else take 9 msg = ''Type name'')"
  by (auto simp: validateCategoryType_def type_name_ok_def Let_def trim_Nil
      split: jsval.splits if_splits)

text \<open>
  Claim C5, as the code has it. The validation accepts a request exactly when the
  trimmed \<open>type_name\<close> is a non-empty string of at most 50 characters that matches the
  pattern and the description, if truthy, is a string of at most 200 characters. Every
  rejection has status 400 and a message that begins with the name of the offending field
  (the type name first). The route then answers with that message, the same under every
  environment and with the tables as they were: no store call is made.
\<close>

theorem category_type_validation:
  "(accepted (validateCategoryType tn d) \<longleftrightarrow> type_name_ok tn \<and> (truthy d \<longrightarrow> description_ok d)) \<and>
   (\<forall>st msg. validateCategoryType tn d = Inl (st, msg) \<longrightarrow>
      st = 400 \<and>
      (if type_name_ok tn then take 11 msg = ''Description'' else take 9 msg = ''Type name'') \<and>
      (\<forall>e s. post_category_types e tn d s = (respond 400 False msg, [], s)))"
proof (intro conjI allI impI)
  show "accepted (validateCategoryType tn d) \<longleftrightarrow> type_name_ok tn \<and> (truthy d \<longrightarrow> description_ok d)"
    by (rule validate_accepts_iff)
next
  fix st msg assume r: "validateCategoryType tn d = Inl (st, msg)"
  from validate_rejects[OF r] show "st = 400" by simp
  from validate_rejects[OF r]
  show "if type_name_ok tn then take 11 msg = ''Description'' else take 9 msg = ''Type name''" by simp
  fix e s
  from validate_rejects[OF r] have "st = 400" by simp
  with r show "post_category_types e tn d s = (respond 400 False msg, [], s)"
    by (simp add: post_category_types_def)
qed

text \<open>
  Claim C5 as stated fails: the description \<open>false\<close> is present and is not a string,
  and the request is accepted (the description is stored as \<open>null\<close>).
\<close>

theorem falsy_description_accepted:
  "accepted (validateCategoryType (JStr ''Expense'') (JBool False)) \<and>
   \<not> (type_name_ok (JStr ''Expense'') \<and> (present (JBool False) \<longrightarrow> description_ok (JBool False)))"
  by (simp add: accepted_def validateCategoryType_def present_def description_ok_def trim_def is_ws_def
      characterOnlyRegex_def name_char_def is_letter_def)

text \<open>
  The theorem of C5 at two requests: the name \<open>" Expense "\<close> with a description is
  accepted; the name \<open>"Groceries 2"\<close> is answered by the route with status 400.
\<close>

theorem category_type_validation_witness:
  "accepted (validateCategoryType (JStr '' Expense '') (JStr ''Spending'')) \<and>
   type_name_ok (JStr '' Expense '') \<and> description_ok (JStr ''Spending'') \<and>
   validateCategoryType (JStr ''Groceries 2'') JUndefined
     = Inl (400, ''Type name must contain only letters, spaces, hyphens, and apostrophes'') \<and>
   post_category_types env0 (JStr ''Groceries 2'') JUndefined db_transport
     = (respond 400 False ''Type name must contain only letters, spaces, hyphens, and apostrophes'', [],
        db_transport)"
proof -
  have n: "type_name_ok (JStr '' Expense '')"
    by (simp add: type_name_ok_def trim_def is_ws_def characterOnlyRegex_def name_char_def is_letter_def)
  have d: "description_ok (JStr ''Spending'')"
    by (simp add: description_ok_def)
  have r: "validateCategoryType (JStr ''Groceries 2'') JUndefined
     = Inl (400, ''Type name must contain only letters, spaces, hyphens, and apostrophes'')"
    by (simp add: validateCategoryType_def trim_def is_ws_def characterOnlyRegex_def name_char_def
        is_letter_def)
  from category_type_validation[of "JStr '' Expense ''" "JStr ''Spending''"] n d
  have a: "accepted (validateCategoryType (JStr '' Expense '') (JStr ''Spending''))" by blast
  from category_type_validation[of "JStr ''Groceries 2''" JUndefined] r
  have p: "post_category_types env0 (JStr ''Groceries 2'') JUndefined db_transport
     = (respond 400 False ''Type name must contain only letters, spaces, hyphens, and apostrophes'', [],
        db_transport)" by blast
  show ?thesis using a n d r p by blast
qed

section \<open>Facts about the handlers\<close>

lemma update_payments_marked:
  "(\<And>p. p_status (f p) = st \<and> p_razorpay_order_id (f p) = p_razorpay_order_id p \<and> p_id (f p) = p_id p \<and>
        p_user_id (f p) = p_user_id p \<and> p_amount (f p) = p_amount p) \<Longrightarrow>
   marked st oid s (update_payments e f oid s)"
  by (simp add: marked_def update_payments_def list_all2_map2 list_all2_same)

lemma success_respond: "success (respond st ok msg) = ok"
  by (simp add: respond_def)

lemma status_respond: "status (respond st ok msg) = st"
  by (simp add: respond_def)





text \<open>The handler once the look-up and the insert have answered.\<close>

lemma create_type_reached:
  assumes f0: "fault_at e 0 = NoFault" and f1: "fault_at e 1 = NoFault"
    and fresh: "\<not> list_ex (\<lambda>r. ct_type_name r = tn) (category_types s)"
  shows "create_category_type e tn d s =
     (let row = \<lparr>ct_id = gen_random_uuid e 1, ct_type_name = tn, ct_description = d,
                   ct_created_at = now e, ct_updated_at = now e\<rparr>;
          seeded = seed_default_categories e tn (Some row) (s\<lparr>category_types := category_types s @ [row]\<rparr>)
      in (\<lparr>status = 201, success = True, message = Some ''Category type created successfully'',
           resp_data = Some row\<rparr>, fst seeded, snd seeded))"
proof -
  from fresh have "filter (\<lambda>r. ct_type_name r = tn) (category_types s) = []"
    by (simp add: list_ex_iff filter_empty_conv)
  then have sel: "ct_select_by_name tn s = Reply None (Some ''PGRST116'')"
    by (simp add: ct_select_by_name_def single_def)
  show ?thesis using f0 f1 fresh
    by (simp add: create_category_type_def query_def sel ct_insert_def Let_def split_def)
qed

section \<open>Deleting a category type\<close>

lemma using_type_iff:
  "nonempty_rows (ec_using_type i s) = list_ex (\<lambda>c. ec_category_type_id c = Some i) (expense_categories s)"
  "nonempty_rows (ic_using_type i s) = list_ex (\<lambda>c. ic_category_type_id c = Some i) (income_categories s)"
  by (simp_all add: nonempty_rows_def ec_using_type_def ic_using_type_def list_ex_iff filter_empty_conv)

text \<open>
  Claim C2. Let the type with the id exist (one row: the id is the primary key) and let
  the store calls not fail. If an expense category or an income category carries the id
  in \<open>category_type_id\<close>, the delete is answered 409 and the tables stay as they were;
  otherwise the row is removed, nothing else changes, and the answer is the success
  message.
\<close>

theorem delete_category_type_guarded:
  "i \<noteq> [] \<and> fault_at e 0 = NoFault \<and> fault_at e 1 = NoFault \<and> fault_at e 2 = NoFault \<and>
   fault_at e 3 = NoFault \<and> filter (\<lambda>r. ct_id r = i) (category_types s) = [t] \<Longrightarrow>
   (if referenced i s
    then status (fst (delete_category_type e i s)) = 409 \<and>
         \<not> success (fst (delete_category_type e i s)) \<and>
         db_of (delete_category_type e i s) = s
    else fst (delete_category_type e i s) = respond 200 True ''Category type deleted successfully'' \<and>
         db_of (delete_category_type e i s)
           = s\<lparr>category_types := filter (\<lambda>r. ct_id r \<noteq> i) (category_types s)\<rparr> \<and>
         \<not> list_ex (\<lambda>r. ct_id r = i) (category_types (db_of (delete_category_type e i s))))"
proof -
  assume a: "i \<noteq> [] \<and> fault_at e 0 = NoFault \<and> fault_at e 1 = NoFault \<and> fault_at e 2 = NoFault \<and>
   fault_at e 3 = NoFault \<and> filter (\<lambda>r. ct_id r = i) (category_types s) = [t]"
  then have sel: "ct_select_by_id i s = Reply (Some t) None"
    by (simp add: ct_select_by_id_def single_def)
  show ?thesis
  proof (cases "referenced i s")
    case True
    with a sel show ?thesis
      by (auto simp: delete_category_type_def query_def using_type_iff referenced_def
            status_respond success_respond db_of_def)
  next
    case False
    then have del: "ct_delete i s
        = (Reply None None, s\<lparr>category_types := filter (\<lambda>r. ct_id r \<noteq> i) (category_types s)\<rparr>)"
      by (simp add: ct_delete_def referenced_def)
    from False a sel show ?thesis
      by (simp add: delete_category_type_def query_def using_type_iff referenced_def del
            db_of_def list_ex_iff)
  qed
qed

text \<open>
  The theorem of C2 at two types: Expense, which the category Transport carries, and
  Savings, which nothing carries.
\<close>

theorem delete_category_type_guarded_witness:
  "referenced ''t1'' db_types \<and>
   status (fst (delete_category_type env0 ''t1'' db_types)) = 409 \<and>
   db_of (delete_category_type env0 ''t1'' db_types) = db_types \<and>
   \<not> referenced ''t2'' db_types \<and>
   fst (delete_category_type env0 ''t2'' db_types)
     = respond 200 True ''Category type deleted successfully'' \<and>
   map ct_id (category_types (db_of (delete_category_type env0 ''t2'' db_types))) = [''t1'']"
proof -
  have nf: "fault_at env0 0 = NoFault \<and> fault_at env0 1 = NoFault \<and> fault_at env0 2 = NoFault \<and>
            fault_at env0 3 = NoFault"
    by (simp add: fault_at_def env0_def)
  have r1: "referenced ''t1'' db_types"
    by (simp add: referenced_def db_types_def empty_db_def transport_def)
  have r2: "\<not> referenced ''t2'' db_types"
    by (simp add: referenced_def db_types_def empty_db_def transport_def salary_def rental_def)
  have e1: "''t1'' \<noteq> [] \<and> filter (\<lambda>r. ct_id r = ''t1'') (category_types db_types) = [type_expense]"
    by (simp add: db_types_def empty_db_def type_expense_def type_savings_def)
  have e2: "''t2'' \<noteq> [] \<and> filter (\<lambda>r. ct_id r = ''t2'') (category_types db_types) = [type_savings]"
    by (simp add: db_types_def empty_db_def type_expense_def type_savings_def)
  from delete_category_type_guarded[of "''t1''" env0 db_types type_expense] nf e1 r1
  have a: "status (fst (delete_category_type env0 ''t1'' db_types)) = 409 \<and>
           db_of (delete_category_type env0 ''t1'' db_types) = db_types" by simp
  from delete_category_type_guarded[of "''t2''" env0 db_types type_savings] nf e2 r2
  have b: "fst (delete_category_type env0 ''t2'' db_types)
             = respond 200 True ''Category type deleted successfully'' \<and>
           db_of (delete_category_type env0 ''t2'' db_types)
             = db_types\<lparr>category_types := filter (\<lambda>r. ct_id r \<noteq> ''t2'') (category_types db_types)\<rparr>"
    by simp
  have c: "map ct_id (category_types (db_types\<lparr>category_types :=
             filter (\<lambda>r. ct_id r \<noteq> ''t2'') (category_types db_types)\<rparr>)) = [''t1'']"
    by (simp add: db_types_def empty_db_def type_expense_def type_savings_def)
  from a b c r1 r2 show ?thesis by simp
qed

section \<open>Creating an income subcategory\<close>

lemma fault_at_reliable: "faults e = [] \<Longrightarrow> fault_at e k = NoFault"
  by (simp add: fault_at_def)

lemma length_one: "length xs = 1 \<Longrightarrow> \<exists>x. xs = [x]"
  by (cases xs) auto

lemma validate_isc_ok:
  "cid \<noteq> [] \<Longrightarrow> trim n \<noteq> [] \<Longrightarrow> length (trim n) \<le> 100 \<Longrightarrow>
   validateIncomeSubcategory (JStr cid) (JStr n) (JBool b) = Inr (cid, trim n, b)"
  by (auto simp: validateIncomeSubcategory_def trim_Nil)

lemma isc_conflict:
  assumes f: "faults e = []"
    and c: "category_exists cid s"
    and x: "length (subs_named cid n s) = 1"
  shows "create_income_subcategory e cid n b s = already_exists s"
proof -
  from c obtain cat where c': "filter (\<lambda>r. ic_id r = cid) (income_categories s) = [cat]"
    unfolding category_exists_def by (blast dest: length_one)
  from x obtain sub where x': "filter (\<lambda>r. isc_category_id r = cid \<and> isc_name r = n) (income_subcategories s) = [sub]"
    unfolding subs_named_def by (blast dest: length_one)
  show ?thesis using c' x'
    by (simp add: create_income_subcategory_def query_def ic_select_by_id_def isc_select_def single_def
        fault_at_reliable[OF f] already_exists_def)
qed

lemma isc_created:
  assumes f: "faults e = []"
    and c: "category_exists cid s"
    and x: "subs_named cid n s = []"
  shows "create_income_subcategory e cid n b s =
     (let row = \<lparr>isc_id = gen_random_uuid e 2, isc_category_id = cid, isc_name = n,
                   isc_is_recurring = b, isc_created_at = db_now e, isc_updated_at = db_now e\<rparr>
      in (\<lparr>status = 201, success = True, message = Some ''Income subcategory created successfully'',
           resp_data = Some row\<rparr>, [], s\<lparr>income_subcategories := income_subcategories s @ [row]\<rparr>))"
proof -
  from c obtain cat where c': "filter (\<lambda>r. ic_id r = cid) (income_categories s) = [cat]"
    unfolding category_exists_def by (blast dest: length_one)
  then have ex: "list_ex (\<lambda>r. ic_id r = cid) (income_categories s)"
    by (metis filter_empty_conv list_ex_iff not_Cons_self2)
  from x have x': "filter (\<lambda>r. isc_category_id r = cid \<and> isc_name r = n) (income_subcategories s) = []"
    by (simp add: subs_named_def)
  then have nex: "\<not> list_ex (\<lambda>r. isc_category_id r = cid \<and> isc_name r = n) (income_subcategories s)"
    by (simp add: list_ex_iff filter_empty_conv)
  show ?thesis using c' x' ex nex
    by (simp add: create_income_subcategory_def query_def ic_select_by_id_def isc_select_def single_def
        isc_insert_def Let_def fault_at_reliable[OF f])
qed

text \<open>
  Claim C3. Let the income category \<open>cid\<close> exist, the name be valid, and the store
  calls not fail. If a subcategory with the (trimmed) name exists under the category, a
  create is answered 409 \<open>already exists\<close> and the tables stay as they were. If none
  exists, the create is answered 201 and the subcategory is then there once; a second
  create of the name under the same category is answered 409 with the tables unchanged;
  and a create of the name under another existing category that lacks it is answered 201,
  after which each of the two categories has the name once.
\<close>

theorem income_subcategory_unique_per_category:
  "faults e = [] \<and> faults e2 = [] \<and> cid \<noteq> [] \<and> trim n \<noteq> [] \<and> length (trim n) \<le> 100 \<and>
   category_exists cid s \<Longrightarrow>
   (length (subs_named cid (trim n) s) = 1 \<longrightarrow>
      post_income_subcategories e (JStr cid) (JStr n) (JBool b) s = already_exists s) \<and>
   (subs_named cid (trim n) s = [] \<longrightarrow>
      status (fst (post_income_subcategories e (JStr cid) (JStr n) (JBool b) s)) = 201 \<and>
      success (fst (post_income_subcategories e (JStr cid) (JStr n) (JBool b) s)) \<and>
      length (subs_named cid (trim n) (db_of (post_income_subcategories e (JStr cid) (JStr n) (JBool b) s))) = 1 \<and>
      post_income_subcategories e2 (JStr cid) (JStr n) (JBool b2)
          (db_of (post_income_subcategories e (JStr cid) (JStr n) (JBool b) s))
        = already_exists (db_of (post_income_subcategories e (JStr cid) (JStr n) (JBool b) s)) \<and>
      (\<forall>cid2. cid2 \<noteq> [] \<and> cid2 \<noteq> cid \<and> category_exists cid2 s \<and> subs_named cid2 (trim n) s = [] \<longrightarrow>
         status (fst (post_income_subcategories e2 (JStr cid2) (JStr n) (JBool b2)
            (db_of (post_income_subcategories e (JStr cid) (JStr n) (JBool b) s)))) = 201 \<and>
         length (subs_named cid (trim n) (db_of (post_income_subcategories e2 (JStr cid2) (JStr n) (JBool b2)
            (db_of (post_income_subcategories e (JStr cid) (JStr n) (JBool b) s))))) = 1 \<and>
         length (subs_named cid2 (trim n) (db_of (post_income_subcategories e2 (JStr cid2) (JStr n) (JBool b2)
            (db_of (post_income_subcategories e (JStr cid) (JStr n) (JBool b) s))))) = 1))"
proof -
  assume a: "faults e = [] \<and> faults e2 = [] \<and> cid \<noteq> [] \<and> trim n \<noteq> [] \<and> length (trim n) \<le> 100 \<and>
   category_exists cid s"
  then have f: "faults e = []" and f2: "faults e2 = []" and c: "category_exists cid s" by simp_all
  have post: "post_income_subcategories e' (JStr cid') (JStr n) (JBool b') s' =
      create_income_subcategory e' cid' (trim n) b' s'" if "cid' \<noteq> []" for e' cid' b' s'
    using a that by (simp add: post_income_subcategories_def validate_isc_ok)
  let ?row = "\<lparr>isc_id = gen_random_uuid e 2, isc_category_id = cid, isc_name = trim n,
                   isc_is_recurring = b, isc_created_at = db_now e, isc_updated_at = db_now e\<rparr>"
  let ?s1 = "s\<lparr>income_subcategories := income_subcategories s @ [?row]\<rparr>"
  have cid: "cid \<noteq> []" using a by simp
  show ?thesis
  proof (intro conjI impI allI)
    assume "length (subs_named cid (trim n) s) = 1"
    then show "post_income_subcategories e (JStr cid) (JStr n) (JBool b) s = already_exists s"
      by (simp add: post[OF cid] isc_conflict[OF f c])
  next
    assume x: "subs_named cid (trim n) s = []"
    have o1: "post_income_subcategories e (JStr cid) (JStr n) (JBool b) s =
        (\<lparr>status = 201, success = True, message = Some ''Income subcategory created successfully'',
           resp_data = Some ?row\<rparr>, [], ?s1)"
      by (simp add: post[OF cid] isc_created[OF f c x] Let_def)
    have d1: "db_of (post_income_subcategories e (JStr cid) (JStr n) (JBool b) s) = ?s1"
      by (simp add: o1 db_of_def)
    have c1: "category_exists cid' ?s1 = category_exists cid' s" for cid'
      by (simp add: category_exists_def)
    have n1: "subs_named cid (trim n) ?s1 = [?row]"
      using x by (simp add: subs_named_def)
    show "status (fst (post_income_subcategories e (JStr cid) (JStr n) (JBool b) s)) = 201"
      "success (fst (post_income_subcategories e (JStr cid) (JStr n) (JBool b) s))"
      "length (subs_named cid (trim n) (db_of (post_income_subcategories e (JStr cid) (JStr n) (JBool b) s))) = 1"
      by (simp_all add: o1 db_of_def n1)
    show "post_income_subcategories e2 (JStr cid) (JStr n) (JBool b2)
          (db_of (post_income_subcategories e (JStr cid) (JStr n) (JBool b) s))
        = already_exists (db_of (post_income_subcategories e (JStr cid) (JStr n) (JBool b) s))"
    proof -
      have "create_income_subcategory e2 cid (trim n) b2 ?s1 = already_exists ?s1"
        by (rule isc_conflict[OF f2]) (simp_all add: c1 c n1)
      then show ?thesis unfolding d1 by (simp add: post[OF cid])
    qed
    fix cid2
    assume d: "cid2 \<noteq> [] \<and> cid2 \<noteq> cid \<and> category_exists cid2 s \<and> subs_named cid2 (trim n) s = []"
    let ?row2 = "\<lparr>isc_id = gen_random_uuid e2 2, isc_category_id = cid2, isc_name = trim n,
                   isc_is_recurring = b2, isc_created_at = db_now e2, isc_updated_at = db_now e2\<rparr>"
    from d have ne: "cid \<noteq> cid2" by auto
    have n2: "subs_named cid2 (trim n) ?s1 = []"
      using d ne by (simp add: subs_named_def)
    have o2: "create_income_subcategory e2 cid2 (trim n) b2 ?s1 =
        (\<lparr>status = 201, success = True, message = Some ''Income subcategory created successfully'',
           resp_data = Some ?row2\<rparr>, [], ?s1\<lparr>income_subcategories := income_subcategories ?s1 @ [?row2]\<rparr>)"
      using isc_created[OF f2 _ n2, of b2] d by (simp add: c1 Let_def)
    have p2: "post_income_subcategories e2 (JStr cid2) (JStr n) (JBool b2)
            (db_of (post_income_subcategories e (JStr cid) (JStr n) (JBool b) s))
          = (\<lparr>status = 201, success = True, message = Some ''Income subcategory created successfully'',
           resp_data = Some ?row2\<rparr>, [], ?s1\<lparr>income_subcategories := income_subcategories ?s1 @ [?row2]\<rparr>)"
      unfolding d1 using d o2 by (simp add: post)
    show "status (fst (post_income_subcategories e2 (JStr cid2) (JStr n) (JBool b2)
            (db_of (post_income_subcategories e (JStr cid) (JStr n) (JBool b) s)))) = 201"
      unfolding p2 by simp
    show "length (subs_named cid (trim n) (db_of (post_income_subcategories e2 (JStr cid2) (JStr n) (JBool b2)
            (db_of (post_income_subcategories e (JStr cid) (JStr n) (JBool b) s))))) = 1"
      unfolding p2 using d x ne by (simp add: db_of_def subs_named_def)
    show "length (subs_named cid2 (trim n) (db_of (post_income_subcategories e2 (JStr cid2) (JStr n) (JBool b2)
            (db_of (post_income_subcategories e (JStr cid) (JStr n) (JBool b) s))))) = 1"
      unfolding p2 using d ne by (simp add: db_of_def subs_named_def)
  qed
qed

text \<open>
  The theorem of C3 at the name Bonus: created under Salary, refused a second time under
  Salary, created under Rental Income.
\<close>

theorem income_subcategory_unique_per_category_witness:
  "status (fst (post_income_subcategories env0 (JStr ''i1'') (JStr '' Bonus '') (JBool False) db_income))
     = 201 \<and>
   map isc_name (income_subcategories
       (db_of (post_income_subcategories env0 (JStr ''i1'') (JStr '' Bonus '') (JBool False) db_income)))
     = [''Bonus''] \<and>
   post_income_subcategories env0 (JStr ''i1'') (JStr '' Bonus '') (JBool True)
       (db_of (post_income_subcategories env0 (JStr ''i1'') (JStr '' Bonus '') (JBool False) db_income))
     = already_exists
         (db_of (post_income_subcategories env0 (JStr ''i1'') (JStr '' Bonus '') (JBool False) db_income)) \<and>
   status (fst (post_income_subcategories env0 (JStr ''i2'') (JStr '' Bonus '') (JBool True)
       (db_of (post_income_subcategories env0 (JStr ''i1'') (JStr '' Bonus '') (JBool False) db_income))))
     = 201"
proof -
  have tr: "trim '' Bonus '' = ''Bonus''"
    by (simp add: trim_def is_ws_def)
  have pre: "faults env0 = [] \<and> faults env0 = [] \<and> ''i1'' \<noteq> [] \<and> trim '' Bonus '' \<noteq> [] \<and>
      length (trim '' Bonus '') \<le> 100 \<and> category_exists ''i1'' db_income"
    by (simp add: tr env0_def category_exists_def db_income_def empty_db_def salary_def rental_def)
  have none: "subs_named ''i1'' (trim '' Bonus '') db_income = []"
    by (simp add: subs_named_def db_income_def empty_db_def)
  have other: "''i2'' \<noteq> [] \<and> ''i2'' \<noteq> ''i1'' \<and> category_exists ''i2'' db_income \<and>
      subs_named ''i2'' (trim '' Bonus '') db_income = []"
    by (simp add: subs_named_def category_exists_def db_income_def empty_db_def salary_def rental_def)
  have names: "map isc_name (income_subcategories
       (db_of (post_income_subcategories env0 (JStr ''i1'') (JStr '' Bonus '') (JBool False) db_income)))
     = [''Bonus'']"
    by (simp add: post_income_subcategories_def validateIncomeSubcategory_def tr
        create_income_subcategory_def query_def fault_at_def env0_def ic_select_by_id_def
        isc_select_def isc_insert_def single_def db_income_def empty_db_def salary_def rental_def
        db_of_def Let_def)
  from income_subcategory_unique_per_category[of env0 env0 "''i1''" "'' Bonus ''" db_income False True]
    pre none other names
  show ?thesis by blast
qed

section \<open>Soft delete of an expense category\<close>

lemma inactive_after_update:
  "c \<in> set (expense_categories (ec_update e (\<lambda>c. c\<lparr>ec_is_active := False\<rparr>) cid s)) \<Longrightarrow>
   ec_id c = cid \<Longrightarrow> \<not> ec_is_active c"
proof -
  assume m: "c \<in> set (expense_categories (ec_update e (\<lambda>c. c\<lparr>ec_is_active := False\<rparr>) cid s))"
    and i: "ec_id c = cid"
  from m obtain c0 where c0: "c0 \<in> set (expense_categories s)"
    "c = (if ec_id c0 = cid then c0\<lparr>ec_is_active := False, ec_updated_at := db_now e\<rparr> else c0)"
    by (auto simp: ec_update_def)
  show ?thesis
  proof (cases "ec_id c0 = cid")
    case True
    with c0 show ?thesis by simp
  next
    case False
    with c0 i show ?thesis by simp
  qed
qed


lemma deleteCategory_reliable:
  "fault_at e 0 = NoFault \<Longrightarrow>
   deleteCategory e cid s = (Inr True, [], ec_update e (\<lambda>c. c\<lparr>ec_is_active := False\<rparr>) cid s)"
  by (simp add: deleteCategory_def query_def)

lemma deleteCategory_returned:
  "deleteCategory e cid s = (Inr v, lg, s') \<Longrightarrow>
   v \<and> s' = ec_update e (\<lambda>c. c\<lparr>ec_is_active := False\<rparr>) cid s"
  by (cases "fault_at e 0") (simp_all add: deleteCategory_def query_def)

lemma getAll_rows:
  "getAllCategories e s = (Inr rows, lg, s2) \<Longrightarrow>
   rows = sort_key ec_category (filter ec_is_active (expense_categories s))"
  by (cases "fault_at e 0") (auto simp: getAllCategories_def query_def)

lemma ec_update_rows:
  "list_all2 (\<lambda>c c'. if ec_id c = cid
                        then c' = c\<lparr>ec_is_active := False, ec_updated_at := db_now e\<rparr>
                        else c' = c) (expense_categories s)
     (expense_categories (ec_update e (\<lambda>c. c\<lparr>ec_is_active := False\<rparr>) cid s))"
  by (simp add: ec_update_def list_all2_map2 list_all2_same)

lemma ec_update_frame:
  "expenses (ec_update e f cid s) = expenses s \<and> category_types (ec_update e f cid s) = category_types s \<and>
   income_categories (ec_update e f cid s) = income_categories s \<and>
   income_subcategories (ec_update e f cid s) = income_subcategories s \<and>
   payments (ec_update e f cid s) = payments s"
  by (simp add: ec_update_def)


lemma not_listed_after_delete:
  assumes g: "getAllCategories e2 (ec_update e (\<lambda>c. c\<lparr>ec_is_active := False\<rparr>) cid s) = (Inr rows, lg2, s2)"
  shows "\<not> list_ex (\<lambda>c. ec_id c = cid) rows"
proof
  assume "list_ex (\<lambda>c. ec_id c = cid) rows"
  then obtain c where c: "c \<in> set rows" "ec_id c = cid"
    unfolding list_ex_iff by blast
  from getAll_rows[OF g] c(1)
  have "c \<in> set (expense_categories (ec_update e (\<lambda>c. c\<lparr>ec_is_active := False\<rparr>) cid s)) \<and> ec_is_active c"
    by simp
  with inactive_after_update[of c e cid s] c(2) show False by blast
qed

text \<open>
  Claim C6, as the code has it. deleteCategory returns when its store call does not fail.
  Whenever it returns, the table of expense categories holds the same rows in the same
  places, those with the id having \<open>is_active\<close> false and \<open>updated_at\<close> stamped by
  the trigger of the table and every other column as before, the other rows untouched;
  the expenses and all other tables are what they were; and no listing of the active
  categories taken from the new tables holds a row with the id.
\<close>

theorem soft_delete_frame:
  "(fault_at e 0 = NoFault \<longrightarrow> (\<exists>s'. deleteCategory e cid s = (Inr True, [], s'))) \<and>
   (\<forall>v lg s'. deleteCategory e cid s = (Inr v, lg, s') \<longrightarrow>
      list_all2 (\<lambda>c c'. if ec_id c = cid
                        then c' = c\<lparr>ec_is_active := False, ec_updated_at := db_now e\<rparr>
                        else c' = c) (expense_categories s) (expense_categories s') \<and>
      expenses s' = expenses s \<and> category_types s' = category_types s \<and>
      income_categories s' = income_categories s \<and> income_subcategories s' = income_subcategories s \<and>
      payments s' = payments s \<and>
      (\<forall>e2 rows lg2 s2. getAllCategories e2 s' = (Inr rows, lg2, s2) \<longrightarrow>
         \<not> list_ex (\<lambda>c. ec_id c = cid) rows))"
proof (rule conjI)
  show "fault_at e 0 = NoFault \<longrightarrow> (\<exists>s'. deleteCategory e cid s = (Inr True, [], s'))"
    using deleteCategory_reliable by blast
next
  show "\<forall>v lg s'. deleteCategory e cid s = (Inr v, lg, s') \<longrightarrow>
      list_all2 (\<lambda>c c'. if ec_id c = cid
                        then c' = c\<lparr>ec_is_active := False, ec_updated_at := db_now e\<rparr>
                        else c' = c) (expense_categories s) (expense_categories s') \<and>
      expenses s' = expenses s \<and> category_types s' = category_types s \<and>
      income_categories s' = income_categories s \<and> income_subcategories s' = income_subcategories s \<and>
      payments s' = payments s \<and>
      (\<forall>e2 rows lg2 s2. getAllCategories e2 s' = (Inr rows, lg2, s2) \<longrightarrow>
         \<not> list_ex (\<lambda>c. ec_id c = cid) rows)"
  proof (intro allI impI)
    fix v lg s'
    assume "deleteCategory e cid s = (Inr v, lg, s')"
    from deleteCategory_returned[OF this]
    have s': "s' = ec_update e (\<lambda>c. c\<lparr>ec_is_active := False\<rparr>) cid s" by blast
    show "list_all2 (\<lambda>c c'. if ec_id c = cid
                        then c' = c\<lparr>ec_is_active := False, ec_updated_at := db_now e\<rparr>
                        else c' = c) (expense_categories s) (expense_categories s') \<and>
      expenses s' = expenses s \<and> category_types s' = category_types s \<and>
      income_categories s' = income_categories s \<and> income_subcategories s' = income_subcategories s \<and>
      payments s' = payments s \<and>
      (\<forall>e2 rows lg2 s2. getAllCategories e2 s' = (Inr rows, lg2, s2) \<longrightarrow>
         \<not> list_ex (\<lambda>c. ec_id c = cid) rows)"
      unfolding s'
      using ec_update_rows[of cid e s] ec_update_frame[of e _ cid s] not_listed_after_delete[of _ e cid s]
      by blast
  qed
qed

text \<open>
  Claim C6 as stated fails in one column: the update fires the trigger
  \<open>trg_expense_categories_updated_at\<close>, so the row of Transport does not only lose its
  flag, its \<open>updated_at\<close> changes too.
\<close>

theorem soft_delete_stamps_updated_at:
  "fst (deleteCategory env0 ''c1'' db_spend) = Inr True \<and>
   expense_categories db_spend = [transport] \<and>
   ec_updated_at transport = ''2024-01-01 00:00:00+00'' \<and>
   map ec_updated_at (expense_categories (db_of (deleteCategory env0 ''c1'' db_spend)))
     = [''2025-06-01 10:00:01+00''] \<and>
   expense_categories (db_of (deleteCategory env0 ''c1'' db_spend)) \<noteq> [transport\<lparr>ec_is_active := False\<rparr>]"
  by (simp add: deleteCategory_def query_def fault_at_def env0_def db_spend_def db_transport_def
      empty_db_def transport_def ec_update_def db_of_def)

text \<open>
  The theorem of C6 at Transport, with one expense booked under that name: the expense is
  as before, the category keeps its name and its list, and the listing is empty.
\<close>

theorem soft_delete_frame_witness:
  "(\<exists>s'. deleteCategory env0 ''c1'' db_spend = (Inr True, [], s') \<and>
         expenses s' = [fuel_bill] \<and>
         map ec_category (expense_categories s') = [''Transport''] \<and>
         map ec_subcategories (expense_categories s') = [[fuel]] \<and>
         map ec_is_active (expense_categories s') = [False] \<and>
         fst (getAllCategories env0 s') = Inr [])"
proof -
  have nf: "fault_at env0 0 = NoFault" by (simp add: fault_at_def env0_def)
  from soft_delete_frame[of env0 "''c1''" db_spend] nf
  obtain s' where d: "deleteCategory env0 ''c1'' db_spend = (Inr True, [], s')" by blast
  from soft_delete_frame[of env0 "''c1''" db_spend] d
  have rows: "list_all2 (\<lambda>c c'. if ec_id c = ''c1''
                        then c' = c\<lparr>ec_is_active := False, ec_updated_at := db_now env0\<rparr>
                        else c' = c) (expense_categories db_spend) (expense_categories s')"
    and ex: "expenses s' = expenses db_spend" by blast+
  from rows have r: "expense_categories s' = [transport\<lparr>ec_is_active := False, ec_updated_at := db_now env0\<rparr>]"
    by (simp add: db_spend_def db_transport_def empty_db_def list_all2_Cons1 transport_def)
  have g: "fst (getAllCategories env0 s') = Inr []"
    by (simp add: getAllCategories_def query_def nf r)
  from d ex r g show ?thesis
    by (simp add: db_spend_def db_transport_def empty_db_def transport_def)
qed

section \<open>Creating an expense category\<close>

lemma addCategory_duplicate:
  "fault_at e 0 = NoFault \<Longrightarrow> cd_category cd = Some c \<Longrightarrow>
   list_ex (\<lambda>r. ec_category r = c) (expense_categories s) \<Longrightarrow>
   addCategory e cd s = (Inl ''23505'', [''Error adding category'', ''Exception in addCategory''], s)"
  by (simp add: addCategory_def query_def ec_insert_def)

lemma addCategory_new:
  "fault_at e 0 = NoFault \<Longrightarrow> cd_category cd = Some c \<Longrightarrow>
   \<not> list_ex (\<lambda>r. ec_category r = c) (expense_categories s) \<Longrightarrow>
   type_exists (cd_category_type_id cd) s \<Longrightarrow>
   addCategory e cd s =
     (let row = \<lparr>ec_id = gen_random_uuid e 0, ec_category = c, ec_icon = cd_icon cd,
                  ec_subcategories = (case cd_subcategories cd of None \<Rightarrow> [] | Some l \<Rightarrow> l),
                  ec_category_type_id = cd_category_type_id cd,
                  ec_is_active = (case cd_is_active cd of None \<Rightarrow> True | Some b \<Rightarrow> b),
                  ec_created_at = (case cd_created_at cd of None \<Rightarrow> db_now e | Some t \<Rightarrow> t),
                  ec_updated_at = (case cd_updated_at cd of None \<Rightarrow> db_now e | Some t \<Rightarrow> t)\<rparr>
      in (Inr (Some row), [], s\<lparr>expense_categories := expense_categories s @ [row]\<rparr>))"
  by (simp add: addCategory_def query_def ec_insert_def Let_def)

text \<open>
  Claim C8, as the code has it. addCategory hands the caller's category data to the
  insert, and the store call is taken not to fail. A name that a category already has is
  refused by the UNIQUE constraint on \<open>category\<close>: the error is logged and thrown and
  no row is added. A new name (with a type id that is absent or exists) adds one row,
  which carries the caller's icon and subcategory list; the list is empty only when the
  caller leaves it out.
\<close>

theorem add_category_as_given:
  "fault_at e 0 = NoFault \<and> cd_category cd = Some c \<Longrightarrow>
   (list_ex (\<lambda>r. ec_category r = c) (expense_categories s) \<longrightarrow>
      addCategory e cd s = (Inl ''23505'', [''Error adding category'', ''Exception in addCategory''], s)) \<and>
   (\<not> list_ex (\<lambda>r. ec_category r = c) (expense_categories s) \<and> type_exists (cd_category_type_id cd) s \<longrightarrow>
      (\<exists>row. addCategory e cd s = (Inr (Some row), [], s\<lparr>expense_categories := expense_categories s @ [row]\<rparr>) \<and>
            ec_category row = c \<and> ec_icon row = cd_icon cd \<and>
            ec_subcategories row = (case cd_subcategories cd of None \<Rightarrow> [] | Some l \<Rightarrow> l) \<and>
            ec_category_type_id row = cd_category_type_id cd))"
proof (intro conjI impI)
  assume a: "fault_at e 0 = NoFault \<and> cd_category cd = Some c"
  show "addCategory e cd s = (Inl ''23505'', [''Error adding category'', ''Exception in addCategory''], s)"
    if "list_ex (\<lambda>r. ec_category r = c) (expense_categories s)"
    using a that by (simp add: addCategory_duplicate)
  show "\<exists>row. addCategory e cd s = (Inr (Some row), [], s\<lparr>expense_categories := expense_categories s @ [row]\<rparr>) \<and>
            ec_category row = c \<and> ec_icon row = cd_icon cd \<and>
            ec_subcategories row = (case cd_subcategories cd of None \<Rightarrow> [] | Some l \<Rightarrow> l) \<and>
            ec_category_type_id row = cd_category_type_id cd"
    if "\<not> list_ex (\<lambda>r. ec_category r = c) (expense_categories s) \<and> type_exists (cd_category_type_id cd) s"
    using a that by (simp add: addCategory_new Let_def)
qed

text \<open>
  Claim C8 as stated fails: the category Pets, given without an icon and with one
  subcategory, is created with no icon (not a placeholder) and with that subcategory in
  its list.
\<close>

theorem add_category_keeps_given_list:
  "fst (addCategory env0 pets db_transport) = Inr (Some pets_row) \<and>
   ec_icon pets_row = None \<and> ec_subcategories pets_row = [fuel] \<and> ec_subcategories pets_row \<noteq> []"
  by (simp add: addCategory_def query_def fault_at_def env0_def ec_insert_def pets_def pets_row_def
      db_transport_def empty_db_def transport_def type_exists_def Let_def)

text \<open>
  The theorem of C8 at two calls: the name Transport, which exists, and the name Pets
  without a list.
\<close>

theorem add_category_as_given_witness:
  "addCategory env0 (pets\<lparr>cd_category := Some ''Transport''\<rparr>) db_transport
     = (Inl ''23505'', [''Error adding category'', ''Exception in addCategory''], db_transport) \<and>
   (\<exists>row. addCategory env0 (pets\<lparr>cd_subcategories := None\<rparr>) db_transport
            = (Inr (Some row), [], db_transport\<lparr>expense_categories := expense_categories db_transport @ [row]\<rparr>) \<and>
          ec_category row = ''Pets'' \<and> ec_subcategories row = [])"
proof -
  have nf: "fault_at env0 0 = NoFault" by (simp add: fault_at_def env0_def)
  have dup: "cd_category (pets\<lparr>cd_category := Some ''Transport''\<rparr>) = Some ''Transport'' \<and>
      list_ex (\<lambda>r. ec_category r = ''Transport'') (expense_categories db_transport)"
    by (simp add: pets_def db_transport_def empty_db_def transport_def)
  have new: "cd_category (pets\<lparr>cd_subcategories := None\<rparr>) = Some ''Pets'' \<and>
      \<not> list_ex (\<lambda>r. ec_category r = ''Pets'') (expense_categories db_transport) \<and>
      type_exists (cd_category_type_id (pets\<lparr>cd_subcategories := None\<rparr>)) db_transport \<and>
      cd_subcategories (pets\<lparr>cd_subcategories := None\<rparr>) = None"
    by (simp add: pets_def db_transport_def empty_db_def transport_def type_exists_def)
  from add_category_as_given[of env0 "pets\<lparr>cd_category := Some ''Transport''\<rparr>" "''Transport''" db_transport]
    nf dup
  have a: "addCategory env0 (pets\<lparr>cd_category := Some ''Transport''\<rparr>) db_transport
     = (Inl ''23505'', [''Error adding category'', ''Exception in addCategory''], db_transport)"
    by blast
  from add_category_as_given[of env0 "pets\<lparr>cd_subcategories := None\<rparr>" "''Pets''" db_transport] nf new
  have b: "\<exists>row. addCategory env0 (pets\<lparr>cd_subcategories := None\<rparr>) db_transport
            = (Inr (Some row), [], db_transport\<lparr>expense_categories := expense_categories db_transport @ [row]\<rparr>) \<and>
          ec_category row = ''Pets'' \<and> ec_subcategories row = []"
    by auto
  from a b show ?thesis by blast
qed

section \<open>Seeding the default categories\<close>

text \<open>
  With store calls that answer and a name that no category type, expense category or
  income category has, the create adds the type and one category of that name to each
  category table, both carrying the id of the new type, the expense category with the
  default icon and an empty list.
\<close>

lemma create_category_type_seeds:
  assumes f: "faults e = []"
    and fresh: "\<not> list_ex (\<lambda>r. ct_type_name r = tn) (category_types s)"
      "\<not> list_ex (\<lambda>r. ec_category r = tn) (expense_categories s)"
      "\<not> list_ex (\<lambda>r. ic_name r = tn) (income_categories s)"
    and i: "gen_random_uuid e 1 \<noteq> []"
  shows "create_category_type e tn d s =
     (let t = \<lparr>ct_id = gen_random_uuid e 1, ct_type_name = tn, ct_description = d,
                ct_created_at = now e, ct_updated_at = now e\<rparr>;
          c = \<lparr>ec_id = gen_random_uuid e 2, ec_category = tn, ec_icon = Some default_icon,
                ec_subcategories = [], ec_category_type_id = Some (gen_random_uuid e 1),
                ec_is_active = True, ec_created_at = now e, ec_updated_at = now e\<rparr>;
          n = \<lparr>ic_id = gen_random_uuid e 3, ic_name = tn,
                ic_category_type_id = Some (gen_random_uuid e 1),
                ic_created_at = now e, ic_updated_at = now e\<rparr>
      in (\<lparr>status = 201, success = True, message = Some ''Category type created successfully'',
           resp_data = Some t\<rparr>, [],
          s\<lparr>category_types := category_types s @ [t],
            expense_categories := expense_categories s @ [c],
            income_categories := income_categories s @ [n]\<rparr>))"
proof -
  have nf: "fault_at e k = NoFault" for k by (rule fault_at_reliable[OF f])
  show ?thesis
    using fresh i
    by (simp add: create_type_reached[OF nf nf fresh(1)] seed_default_categories_def query_def nf
        ec_insert_def ic_insert_def type_exists_def Let_def)
qed

text \<open>
  Claim C4 at a request that the code answers otherwise than the claim says. The income
  category Salary exists and no category type does. Creating the type Salary is answered
  201; the seeding insert of the income category is refused by the UNIQUE constraint on
  \<open>name\<close>, the error comes back in the result of the call, which the handler does not
  look at, and nothing is written to the console.
\<close>

theorem seeding_error_not_logged:
  "list_ex (\<lambda>r. ic_name r = ''Salary'') (income_categories db_income) \<and>
   category_types db_income = [] \<and>
   status (fst (post_category_types env0 (JStr ''Salary'') JUndefined db_income)) = 201 \<and>
   fst (snd (post_category_types env0 (JStr ''Salary'') JUndefined db_income)) = [] \<and>
   map ct_type_name (category_types (db_of (post_category_types env0 (JStr ''Salary'') JUndefined db_income)))
     = [''Salary''] \<and>
   map ec_category (expense_categories (db_of (post_category_types env0 (JStr ''Salary'') JUndefined db_income)))
     = [''Salary''] \<and>
   income_categories (db_of (post_category_types env0 (JStr ''Salary'') JUndefined db_income))
     = income_categories db_income"
  by (simp add: post_category_types_def validateCategoryType_def trim_def is_ws_def characterOnlyRegex_def
      name_char_def is_letter_def create_category_type_def query_def fault_at_def env0_def
      ct_select_by_name_def single_def ct_insert_def seed_default_categories_def ec_insert_def
      ic_insert_def type_exists_def db_income_def empty_db_def salary_def rental_def db_of_def Let_def)

section \<open>The payment webhook\<close>

lemma webhook_unset:
  "\<not> truthy_str secret \<Longrightarrow> webhook e hmac js secret sg body s = (200, [], s)"
  by (simp add: webhook_def)

lemma webhook_mismatch:
  "truthy_str secret \<Longrightarrow> sg \<noteq> Some (hmac (the secret) (js body)) \<Longrightarrow>
   webhook e hmac js secret sg body s = (400, [], s)"
  by (simp add: webhook_def Let_def)

lemma webhook_change:
  assumes a: "webhook e hmac js secret sg body s = (st, lg, s')" and c: "s' \<noteq> s"
  shows "truthy_str secret \<and> sg = Some (hmac (the secret) (js body)) \<and>
      wb_event body = Some ''payment.captured'' \<and>
      (\<exists>oid. oid \<noteq> [] \<and> webhook_order_id (payload_or_empty body) = Some oid \<and>
             marked Captured oid s s')"
proof (intro conjI)
  from a c show "truthy_str secret" by (auto simp: webhook_def split: if_splits)
  from a c show "sg = Some (hmac (the secret) (js body))"
    by (auto simp: webhook_def Let_def split: if_splits)
  from a c show "wb_event body = Some ''payment.captured''"
    by (auto simp: webhook_def Let_def split: if_splits option.splits)
  from a c show "\<exists>oid. oid \<noteq> [] \<and> webhook_order_id (payload_or_empty body) = Some oid \<and>
                 marked Captured oid s s'"
    by (auto simp: webhook_def Let_def query_def truthy_str_def intro!: update_payments_marked
        split: if_splits option.splits fault.splits)
qed

lemma webhook_captures:
  assumes "truthy_str secret" "sg = Some (hmac (the secret) (js body))"
    "wb_event body = Some ''payment.captured''"
    "webhook_order_id (payload_or_empty body) = Some oid" "oid \<noteq> []"
    "wp_payment (payload_or_empty body) = Some pp" "pp_entity pp = Some ent"
    "fault_at e 0 = NoFault"
  shows "\<exists>s'. webhook e hmac js secret sg body s = (200, [], s') \<and> marked Captured oid s s'"
  using assms
  by (auto simp: webhook_def Let_def query_def truthy_str_def intro!: update_payments_marked)

text \<open>
  Claim C10, as the code has it. Take a request whose body the parser accepts. With the
  webhook secret unset or empty the endpoint answers 200 at once, whatever the signature,
  and the tables stay as they were. With a non-empty secret and a header that is not the
  HMAC of \<open>JSON.stringify\<close> of the parsed body it answers 400, and the tables stay as
  they were. Whenever the tables change at all, the secret is non-empty, the header is
  that HMAC, the event is \<open>payment.captured\<close>, an order id is there, and the change is
  that the payments with that order id are marked captured. Conversely, such a request
  whose payload carries the payment entity is answered 200 with those payments marked
  captured, when the store call does not fail.
\<close>

theorem webhook_gate:
  "parse raw = Some body \<Longrightarrow>
   (\<not> truthy_str secret \<longrightarrow>
      post_payments_webhook e hmac parse js secret sg raw s = (200, [], s)) \<and>
   (truthy_str secret \<and> sg \<noteq> Some (hmac (the secret) (js body)) \<longrightarrow>
      post_payments_webhook e hmac parse js secret sg raw s = (400, [], s)) \<and>
   (\<forall>st lg s'. post_payments_webhook e hmac parse js secret sg raw s = (st, lg, s') \<and> s' \<noteq> s \<longrightarrow>
      truthy_str secret \<and> sg = Some (hmac (the secret) (js body)) \<and>
      wb_event body = Some ''payment.captured'' \<and>
      (\<exists>oid. oid \<noteq> [] \<and> webhook_order_id (payload_or_empty body) = Some oid \<and>
             marked Captured oid s s')) \<and>
   (\<forall>oid pp ent. truthy_str secret \<and> sg = Some (hmac (the secret) (js body)) \<and>
      wb_event body = Some ''payment.captured'' \<and>
      webhook_order_id (payload_or_empty body) = Some oid \<and> oid \<noteq> [] \<and>
      wp_payment (payload_or_empty body) = Some pp \<and> pp_entity pp = Some ent \<and>
      fault_at e 0 = NoFault \<longrightarrow>
      (\<exists>s'. post_payments_webhook e hmac parse js secret sg raw s = (200, [], s') \<and>
            marked Captured oid s s'))"
proof -
  assume p: "parse raw = Some body"
  then have r: "post_payments_webhook e hmac parse js secret sg raw s
                  = webhook e hmac js secret sg body s"
    by (simp add: post_payments_webhook_def)
  show ?thesis
    unfolding r
    using webhook_unset[of secret e hmac js sg body s] webhook_mismatch[of secret sg hmac js body e s]
      webhook_change[of e hmac js secret sg body s] webhook_captures[of secret sg hmac js body _ _ _ e s]
    by blast
qed

text \<open>
  Claim C10 as stated fails. The captured event is sent with a space after the first
  brace, under the secret whsec. A header that is the HMAC of the re-serialised body, and
  not the HMAC of the bytes sent, is accepted and the payment of order_1 is captured; the
  header that is the HMAC of the bytes sent is answered 400. And with the secret set to
  the empty string a forged header is answered 200.
\<close>

theorem webhook_signs_reserialised_body:
  "toy_parse spaced_raw = Some captured_event \<and>
   toy_stringify captured_event \<noteq> spaced_raw \<and>
   toy_hmac ''whsec'' (toy_stringify captured_event) \<noteq> toy_hmac ''whsec'' spaced_raw \<and>
   fst (post_payments_webhook env0 toy_hmac toy_parse toy_stringify (Some ''whsec'')
          (Some (toy_hmac ''whsec'' (toy_stringify captured_event))) spaced_raw db_pay) = 200 \<and>
   map p_status (payments (db_of (post_payments_webhook env0 toy_hmac toy_parse toy_stringify
          (Some ''whsec'') (Some (toy_hmac ''whsec'' (toy_stringify captured_event))) spaced_raw db_pay)))
     = [Captured, Created] \<and>
   post_payments_webhook env0 toy_hmac toy_parse toy_stringify (Some ''whsec'')
       (Some (toy_hmac ''whsec'' spaced_raw)) spaced_raw db_pay = (400, [], db_pay) \<and>
   post_payments_webhook env0 toy_hmac toy_parse toy_stringify (Some '''')
       (Some ''forged'') spaced_raw db_pay = (200, [], db_pay)"
proof -
  have ne: "compact_raw \<noteq> spaced_raw"
    by (simp add: compact_raw_def spaced_raw_def event_json_tail_def dq_def)
  have p: "toy_parse spaced_raw = Some captured_event" by (simp add: toy_parse_def)
  have js: "toy_stringify captured_event = compact_raw" by (simp add: toy_stringify_def)
  have mac: "toy_hmac ''whsec'' compact_raw \<noteq> toy_hmac ''whsec'' spaced_raw"
    using ne by (simp add: toy_hmac_def)
  have ev: "wb_event captured_event = Some ''payment.captured''"
    by (simp add: captured_event_def)
  have pl: "payload_or_empty captured_event
      = \<lparr>wp_payment = Some \<lparr>pp_entity = Some \<lparr>pe_id = Some ''pay_9'', pe_order_id = Some ''order_1'',
             pe_method = Some ''upi'', pe_email = None, pe_contact = None\<rparr>\<rparr>, wp_order = None\<rparr>"
    by (simp add: captured_event_def payload_or_empty_def)
  have ok: "post_payments_webhook env0 toy_hmac toy_parse toy_stringify (Some ''whsec'')
          (Some (toy_hmac ''whsec'' compact_raw)) spaced_raw db_pay
        = (200, [], update_payments env0
             (\<lambda>p. p\<lparr>p_status := Captured,
                     p_razorpay_payment_id := Some ''pay_9'', p_method := Some ''upi'',
                     p_verified_at := Some (now env0)\<rparr>) ''order_1'' db_pay)"
    by (simp add: post_payments_webhook_def p webhook_def js truthy_str_def Let_def ev pl
        webhook_order_id_def query_def fault_at_def env0_def set_opt_def)
  have st: "map p_status (payments (update_payments env0
             (\<lambda>p. p\<lparr>p_status := Captured,
                     p_razorpay_payment_id := Some ''pay_9'', p_method := Some ''upi'',
                     p_verified_at := Some (now env0)\<rparr>) ''order_1'' db_pay)) = [Captured, Created]"
    by (simp add: update_payments_def db_pay_def empty_db_def pay1_def pay2_def)
  have bad: "post_payments_webhook env0 toy_hmac toy_parse toy_stringify (Some ''whsec'')
       (Some (toy_hmac ''whsec'' spaced_raw)) spaced_raw db_pay = (400, [], db_pay)"
    using mac by (simp add: post_payments_webhook_def p webhook_def js truthy_str_def Let_def)
  have empty: "post_payments_webhook env0 toy_hmac toy_parse toy_stringify (Some '''')
       (Some ''forged'') spaced_raw db_pay = (200, [], db_pay)"
    by (simp add: post_payments_webhook_def p webhook_def truthy_str_def)
  show ?thesis
    using p ne mac bad empty by (simp add: js ok st db_of_def)
qed

text \<open>
  The theorem of C10 at the captured event for order_1, sent in the compact form: without
  a secret, with a forged signature, and with the HMAC of the re-serialised body.
\<close>

theorem webhook_gate_witness:
  "post_payments_webhook env0 toy_hmac toy_parse toy_stringify None (Some ''forged'') compact_raw db_pay
     = (200, [], db_pay) \<and>
   post_payments_webhook env0 toy_hmac toy_parse toy_stringify (Some ''whsec'') (Some ''forged'')
       compact_raw db_pay = (400, [], db_pay) \<and>
   (\<exists>s'. post_payments_webhook env0 toy_hmac toy_parse toy_stringify (Some ''whsec'')
            (Some (toy_hmac ''whsec'' (toy_stringify captured_event))) compact_raw db_pay
          = (200, [], s') \<and>
        marked Captured ''order_1'' db_pay s' \<and> map p_status (payments s') = [Captured, Created])"
proof -
  have p: "toy_parse compact_raw = Some captured_event" by (simp add: toy_parse_def)
  have unset: "\<not> truthy_str None" by (simp add: truthy_str_def)
  have forged: "truthy_str (Some ''whsec'') \<and>
      Some ''forged'' \<noteq> Some (toy_hmac (the (Some ''whsec'')) (toy_stringify captured_event))"
    by (simp add: truthy_str_def toy_hmac_def)
  have good: "truthy_str (Some ''whsec'') \<and>
      Some (toy_hmac ''whsec'' (toy_stringify captured_event))
        = Some (toy_hmac (the (Some ''whsec'')) (toy_stringify captured_event)) \<and>
      wb_event captured_event = Some ''payment.captured'' \<and>
      webhook_order_id (payload_or_empty captured_event) = Some ''order_1'' \<and> ''order_1'' \<noteq> [] \<and>
      wp_payment (payload_or_empty captured_event)
        = Some \<lparr>pp_entity = Some \<lparr>pe_id = Some ''pay_9'', pe_order_id = Some ''order_1'',
             pe_method = Some ''upi'', pe_email = None, pe_contact = None\<rparr>\<rparr> \<and>
      pp_entity \<lparr>pp_entity = Some \<lparr>pe_id = Some ''pay_9'', pe_order_id = Some ''order_1'',
             pe_method = Some ''upi'', pe_email = None, pe_contact = None\<rparr>\<rparr>
        = Some \<lparr>pe_id = Some ''pay_9'', pe_order_id = Some ''order_1'',
             pe_method = Some ''upi'', pe_email = None, pe_contact = None\<rparr> \<and>
      fault_at env0 0 = NoFault"
    by (simp add: truthy_str_def captured_event_def payload_or_empty_def webhook_order_id_def
        fault_at_def env0_def)
  have st: "map p_status (payments s') = [Captured, Created]"
    if "marked Captured ''order_1'' db_pay s'" for s'
    using that
    by (auto simp: marked_def db_pay_def empty_db_def pay1_def pay2_def list_all2_Cons1)
  note t = webhook_gate[of toy_parse compact_raw captured_event _ env0 toy_hmac toy_stringify _ db_pay]
  from t[of None "Some ''forged''"] p unset
  have a: "post_payments_webhook env0 toy_hmac toy_parse toy_stringify None (Some ''forged'')
             compact_raw db_pay = (200, [], db_pay)" by blast
  from t[of "Some ''whsec''" "Some ''forged''"] p forged
  have b: "post_payments_webhook env0 toy_hmac toy_parse toy_stringify (Some ''whsec'')
             (Some ''forged'') compact_raw db_pay = (400, [], db_pay)" by blast
  from t[of "Some ''whsec''" "Some (toy_hmac ''whsec'' (toy_stringify captured_event))"] p good
  have c: "\<exists>s'. post_payments_webhook env0 toy_hmac toy_parse toy_stringify (Some ''whsec'')
            (Some (toy_hmac ''whsec'' (toy_stringify captured_event))) compact_raw db_pay
          = (200, [], s') \<and> marked Captured ''order_1'' db_pay s'" by blast
  from a b c st show ?thesis by blast
qed

section \<open>Payment verification\<close>

lemma keyed_update:
  "(\<And>p. p_razorpay_order_id (f p) = p_razorpay_order_id p) \<Longrightarrow>
   keyed oid (update_payments e f oid s) = map (\<lambda>p. (f p)\<lparr>p_updated_at := db_now e\<rparr>) (keyed oid s)"
  by (simp add: keyed_def update_payments_def filter_map comp_def cong: filter_cong)

lemma capture_single:
  assumes k: "keyed oid s = [p]"
  shows "update_payments_single e
           (\<lambda>p. p\<lparr>p_status := Captured, p_razorpay_payment_id := Some pid,
                   p_razorpay_signature := Some sg, p_verified_at := Some (now e)\<rparr>) oid s
         = (Reply (Some (p\<lparr>p_status := Captured, p_razorpay_payment_id := Some pid,
                           p_razorpay_signature := Some sg, p_verified_at := Some (now e),
                           p_updated_at := db_now e\<rparr>)) None,
            update_payments e
              (\<lambda>p. p\<lparr>p_status := Captured, p_razorpay_payment_id := Some pid,
                      p_razorpay_signature := Some sg, p_verified_at := Some (now e)\<rparr>) oid s)"
proof -
  have "keyed oid (update_payments e
           (\<lambda>p. p\<lparr>p_status := Captured, p_razorpay_payment_id := Some pid,
                   p_razorpay_signature := Some sg, p_verified_at := Some (now e)\<rparr>) oid s)
        = [p\<lparr>p_status := Captured, p_razorpay_payment_id := Some pid,
              p_razorpay_signature := Some sg, p_verified_at := Some (now e),
              p_updated_at := db_now e\<rparr>]"
    by (simp add: keyed_update k)
  then show ?thesis
    by (simp add: update_payments_single_def Let_def single_def keyed_def)
qed

lemma verify_handler_specified:
  assumes b: "razorpay_order_id b = Some oid" "razorpay_payment_id b = Some pid"
      "razorpay_signature b = Some sg"
    and ne: "oid \<noteq> []" "pid \<noteq> []" "sg \<noteq> []"
    and nf: "fault_at e 0 = NoFault"
  shows "verified_as_specified e hmac key oid pid sg s (verify_handler e hmac key b s)"
proof (cases "sg = hmac key (oid @ ''|'' @ pid)")
  case False
  then show ?thesis using b ne nf
    by (auto simp: verified_as_specified_def verify_handler_def Let_def query_def db_of_def
        intro!: update_payments_marked)
next
  case True
  have one: "marked Captured oid s (db_of (verify_handler e hmac key b s)) \<and>
              (\<exists>p'. resp_data (fst (verify_handler e hmac key b s)) = Some p' \<and>
                    keyed oid (db_of (verify_handler e hmac key b s)) = [p'] \<and>
                    p_id p' = p_id p \<and> p_status p' = Captured \<and> p_verified_at p' = Some (now e))"
    if k: "keyed oid s = [p]" for p
    using b ne nf True
    by (auto simp: verify_handler_def Let_def query_def db_of_def capture_single[OF k] keyed_update k
        intro!: update_payments_marked)
  have ok: "status (fst (verify_handler e hmac key b s)) = 200 \<and>
            success (fst (verify_handler e hmac key b s))"
    using b ne nf True
    by (auto simp: verify_handler_def Let_def query_def split: prod.splits)
  show ?thesis using True one ok by (simp add: verified_as_specified_def)
qed

lemma serve_verify_edge:
  assumes b: "razorpay_order_id b = Some oid" "razorpay_payment_id b = Some pid"
      "razorpay_signature b = Some sg"
    and ne: "oid \<noteq> []" "pid \<noteq> []" "sg \<noteq> []"
    and nf: "fault_at e 0 = NoFault"
  shows "edge_verified e hmac key oid pid sg s (serve_verify e hmac key True b s)"
proof (cases "sg = hmac key (oid @ ''|'' @ pid)")
  case False
  then show ?thesis using b ne nf
    by (auto simp: edge_verified_def serve_verify_def Let_def query_def db_of_def
        intro!: update_payments_marked)
next
  case True
  have one: "marked Captured oid s (db_of (serve_verify e hmac key True b s)) \<and>
              (\<exists>p'. keyed oid (db_of (serve_verify e hmac key True b s)) = [p'] \<and>
                    p_id p' = p_id p \<and> p_status p' = Captured \<and> p_verified_at p' = Some (now e))"
    if k: "keyed oid s = [p]" for p
  proof (cases "p_user_id p = []")
    case u: True
    show ?thesis using b ne nf True u
      by (auto simp: serve_verify_def Let_def query_def db_of_def capture_single[OF k] keyed_update k
          intro!: update_payments_marked)
  next
    case u: False
    show ?thesis using b ne nf True u
      by (auto simp: serve_verify_def Let_def query_def db_of_def capture_single[OF k] keyed_update k
          intro!: update_payments_marked)
  qed
  show ?thesis using True one by (simp add: edge_verified_def)
qed

text \<open>
  The response of the edge function to the right signature, when the store call does not
  fail and the payment keyed by the order id has an owner: the call of the undefined
  function is reached after the update, and the answer is 500.
\<close>

lemma serve_verify_after_capture:
  assumes b: "razorpay_order_id b = Some oid" "razorpay_payment_id b = Some pid"
      "razorpay_signature b = Some sg"
    and ne: "oid \<noteq> []" "pid \<noteq> []" "sg \<noteq> []"
    and nf: "fault_at e 0 = NoFault"
    and k: "keyed oid s = [p]" and u: "p_user_id p \<noteq> []"
    and v: "sg = hmac key (oid @ ''|'' @ pid)"
  shows "fst (serve_verify e hmac key True b s)
           = respond 500 False ''sendPaymentConfirmationEmail is not defined''"
  using b ne nf u v
  by (simp add: serve_verify_def Let_def query_def capture_single[OF k])

lemma suffix_last: "suffix a p \<Longrightarrow> a \<noteq> [] \<Longrightarrow> last p = last a"
  by (auto simp: suffix_def)

lemma verify_path_branch:
  assumes v: "suffix ''/verify'' pathname"
  shows "serve_branch ''POST'' pathname action = Verify"
proof -
  from suffix_last[OF v] have l: "last pathname = CHR ''y''" by simp
  have "\<not> suffix ''/payments'' pathname"
  proof
    assume "suffix ''/payments'' pathname"
    from suffix_last[OF this] l show False by simp
  qed
  moreover have "\<not> suffix ''/create-order'' pathname"
  proof
    assume "suffix ''/create-order'' pathname"
    from suffix_last[OF this] l show False by simp
  qed
  ultimately show ?thesis using v by (simp add: serve_branch_def)
qed

text \<open>
  Claim C1, as the code has it. Take a request that carries the three fields non-empty,
  let the store call not fail, and let one payment be keyed by the order id. On the
  Express route, if the JWT middleware lets the request through: on the right signature
  the response is a success and that payment is captured, stamped with \<open>verified_at\<close>
  and returned; on any other signature the response is 400 \<open>Invalid signature\<close> and
  the payments with that order id are failed. On the edge function, if the path ends in
  \<open>/verify\<close> and the admin client is configured: on the right signature that payment
  is captured and stamped with \<open>verified_at\<close>; on any other signature the response is
  400 \<open>Invalid signature\<close> and the payments with that order id are failed.
\<close>

theorem payment_verification:
  "razorpay_order_id b = Some oid \<and> razorpay_payment_id b = Some pid \<and>
   razorpay_signature b = Some sg \<and> oid \<noteq> [] \<and> pid \<noteq> [] \<and> sg \<noteq> [] \<and> fault_at e 0 = NoFault \<Longrightarrow>
   (jwtAuthMiddleware jwt hdr = (None :: (payment response \<times> string list) option) \<longrightarrow>
      verified_as_specified e hmac key oid pid sg s (post_payments_verify e hmac key jwt hdr b s)) \<and>
   (suffix ''/verify'' pathname \<longrightarrow>
      (\<exists>out. serve e hmac key True ''POST'' pathname action b s = Some out \<and>
             edge_verified e hmac key oid pid sg s out))"
proof (intro conjI impI)
  assume a: "razorpay_order_id b = Some oid \<and> razorpay_payment_id b = Some pid \<and>
   razorpay_signature b = Some sg \<and> oid \<noteq> [] \<and> pid \<noteq> [] \<and> sg \<noteq> [] \<and> fault_at e 0 = NoFault"
  {
    assume "jwtAuthMiddleware jwt hdr = (None :: (payment response \<times> string list) option)"
    then have "post_payments_verify e hmac key jwt hdr b s = verify_handler e hmac key b s"
      by (simp add: post_payments_verify_def)
    with a show "verified_as_specified e hmac key oid pid sg s (post_payments_verify e hmac key jwt hdr b s)"
      by (simp add: verify_handler_specified)
  }
  {
    assume "suffix ''/verify'' pathname"
    then have "serve e hmac key True ''POST'' pathname action b s
                 = Some (serve_verify e hmac key True b s)"
      by (simp add: serve_def verify_path_branch)
    with a show "\<exists>out. serve e hmac key True ''POST'' pathname action b s = Some out \<and>
             edge_verified e hmac key oid pid sg s out"
      by (simp add: serve_verify_edge)
  }
qed

text \<open>
  Claim C1 as stated fails at a request for order_1 with the right signature. Sent to the
  Express route without an Authorization header it is answered 401 and the payment stays
  created. Sent to the edge function while the admin client is not configured it is
  answered with a success, and the payment stays created. Sent to the edge function while
  the admin client is configured, the payment is captured and the answer is 500: the call
  of \<open>sendPaymentConfirmationEmail\<close>, which the function neither defines nor imports,
  raises after the update.
\<close>

theorem verification_gated:
  "good_sig = toy_hmac ''key_secret'' (''order_1'' @ ''|'' @ ''pay_9'') \<and>
   map p_status (keyed ''order_1'' db_pay) = [Created] \<and>
   post_payments_verify env0 toy_hmac ''key_secret'' any_token None (order1_body good_sig) db_pay
     = (respond 401 False ''Authorization header missing'', [], db_pay) \<and>
   serve env0 toy_hmac ''key_secret'' False ''POST'' ''/functions/v1/payments/verify'' None
       (order1_body good_sig) db_pay
     = Some (\<lparr>status = 200, success = True, message = None, resp_data = None\<rparr>, [], db_pay) \<and>
   (\<exists>out. serve env0 toy_hmac ''key_secret'' True ''POST'' ''/functions/v1/payments/verify'' None
             (order1_body good_sig) db_pay = Some out \<and>
          fst out = respond 500 False ''sendPaymentConfirmationEmail is not defined'' \<and>
          map p_status (payments (db_of out)) = [Captured, Created])"
proof -
  have a: "good_sig = toy_hmac ''key_secret'' (''order_1'' @ ''|'' @ ''pay_9'') \<and>
   map p_status (keyed ''order_1'' db_pay) = [Created] \<and>
   post_payments_verify env0 toy_hmac ''key_secret'' any_token None (order1_body good_sig) db_pay
     = (respond 401 False ''Authorization header missing'', [], db_pay) \<and>
   serve env0 toy_hmac ''key_secret'' False ''POST'' ''/functions/v1/payments/verify'' None
       (order1_body good_sig) db_pay
     = Some (\<lparr>status = 200, success = True, message = None, resp_data = None\<rparr>, [], db_pay)"
    by (simp add: good_sig_def keyed_def db_pay_def empty_db_def pay1_def pay2_def
      post_payments_verify_def jwtAuthMiddleware_def serve_def serve_branch_def serve_verify_def
      order1_body_def toy_hmac_def suffix_def Let_def)
  have br: "serve_branch ''POST'' ''/functions/v1/payments/verify'' None = Verify"
    by (rule verify_path_branch) (simp add: suffix_def)
  have sv: "serve env0 toy_hmac ''key_secret'' True ''POST'' ''/functions/v1/payments/verify'' None
             (order1_body good_sig) db_pay
           = Some (serve_verify env0 toy_hmac ''key_secret'' True (order1_body good_sig) db_pay)"
    by (simp add: serve_def br)
  have k: "keyed ''order_1'' db_pay = [pay1]"
    by (simp add: keyed_def db_pay_def empty_db_def pay1_def pay2_def)
  have nf: "fault_at env0 0 = NoFault" by (simp add: fault_at_def env0_def)
  have r: "fst (serve_verify env0 toy_hmac ''key_secret'' True (order1_body good_sig) db_pay)
           = respond 500 False ''sendPaymentConfirmationEmail is not defined''"
    by (rule serve_verify_after_capture[where oid = "''order_1''" and pid = "''pay_9''"
          and sg = good_sig and p = pay1])
       (simp_all add: order1_body_def good_sig_def toy_hmac_def nf k pay1_def)
  have st: "map p_status (payments (db_of (serve_verify env0 toy_hmac ''key_secret'' True
              (order1_body good_sig) db_pay))) = [Captured, Created]"
    by (simp add: good_sig_def db_pay_def empty_db_def pay1_def pay2_def db_of_def
      serve_verify_def query_def fault_at_def env0_def update_payments_single_def
      update_payments_def single_def order1_body_def toy_hmac_def Let_def)
  from a sv r st show ?thesis by simp
qed

text \<open>
  The theorem of C1 at order_1, which one payment carries: authorised on the Express
  route with the right and with a forged signature, and on the edge function with the
  right signature.
\<close>

theorem payment_verification_witness:
  "map p_id (keyed ''order_1'' db_pay) = [''p1''] \<and>
   verified_as_specified env0 toy_hmac ''key_secret'' ''order_1'' ''pay_9'' good_sig db_pay
     (post_payments_verify env0 toy_hmac ''key_secret'' any_token (Some ''Bearer abc'')
        (order1_body good_sig) db_pay) \<and>
   map p_status (payments (db_of (post_payments_verify env0 toy_hmac ''key_secret'' any_token
        (Some ''Bearer abc'') (order1_body good_sig) db_pay))) = [Captured, Created] \<and>
   verified_as_specified env0 toy_hmac ''key_secret'' ''order_1'' ''pay_9'' ''forged'' db_pay
     (post_payments_verify env0 toy_hmac ''key_secret'' any_token (Some ''Bearer abc'')
        (order1_body ''forged'') db_pay) \<and>
   map p_status (payments (db_of (post_payments_verify env0 toy_hmac ''key_secret'' any_token
        (Some ''Bearer abc'') (order1_body ''forged'') db_pay))) = [Failed, Created] \<and>
   (\<exists>out. serve env0 toy_hmac ''key_secret'' True ''POST'' ''/functions/v1/payments/verify''
             None (order1_body good_sig) db_pay = Some out \<and>
          edge_verified env0 toy_hmac ''key_secret'' ''order_1'' ''pay_9'' good_sig db_pay out \<and>
          map p_status (payments (db_of out)) = [Captured, Created])"
proof -
  have auth: "jwtAuthMiddleware any_token (Some ''Bearer abc'')
                = (None :: (payment response \<times> string list) option)"
    by (simp add: jwtAuthMiddleware_def any_token_def)
  have path: "suffix ''/verify'' ''/functions/v1/payments/verify''"
    by (simp add: suffix_def)
  have pre: "razorpay_order_id (order1_body sg) = Some ''order_1'' \<and>
      razorpay_payment_id (order1_body sg) = Some ''pay_9'' \<and>
      razorpay_signature (order1_body sg) = Some sg \<and> ''order_1'' \<noteq> [] \<and> ''pay_9'' \<noteq> []" for sg
    by (simp add: order1_body_def)
  have nf: "fault_at env0 0 = NoFault" by (simp add: fault_at_def env0_def)
  have g: "good_sig \<noteq> []" by (simp add: good_sig_def toy_hmac_def)
  have f: "''forged'' \<noteq> []" by simp
  have k: "keyed ''order_1'' db_pay = [pay1]"
    by (simp add: keyed_def db_pay_def empty_db_def pay1_def pay2_def)
  have v: "good_sig = toy_hmac ''key_secret'' (''order_1'' @ ''|'' @ ''pay_9'')"
    by (simp add: good_sig_def)
  have st1: "map p_status (payments (db_of (post_payments_verify env0 toy_hmac ''key_secret'' any_token
        (Some ''Bearer abc'') (order1_body good_sig) db_pay))) = [Captured, Created]"
    by (simp add: good_sig_def db_pay_def empty_db_def pay1_def pay2_def db_of_def
      post_payments_verify_def jwtAuthMiddleware_def any_token_def verify_handler_def query_def
      fault_at_def env0_def update_payments_single_def update_payments_def single_def
      order1_body_def toy_hmac_def Let_def)
  have st2: "map p_status (payments (db_of (post_payments_verify env0 toy_hmac ''key_secret'' any_token
        (Some ''Bearer abc'') (order1_body ''forged'') db_pay))) = [Failed, Created]"
    by (simp add: db_pay_def empty_db_def pay1_def pay2_def db_of_def
      post_payments_verify_def jwtAuthMiddleware_def any_token_def verify_handler_def query_def
      fault_at_def env0_def update_payments_def
      order1_body_def toy_hmac_def Let_def)
  have st3: "map p_status (payments (db_of out)) = [Captured, Created]"
    if "edge_verified env0 toy_hmac ''key_secret'' ''order_1'' ''pay_9'' good_sig db_pay out" for out
    using that k v
    by (auto simp: edge_verified_def marked_def db_pay_def empty_db_def pay1_def pay2_def
        list_all2_Cons1)
  from payment_verification[of "order1_body good_sig" "''order_1''" "''pay_9''" good_sig env0
      any_token "Some ''Bearer abc''" toy_hmac "''key_secret''" db_pay
      "''/functions/v1/payments/verify''" None] pre[of good_sig] nf g auth path
  have a: "verified_as_specified env0 toy_hmac ''key_secret'' ''order_1'' ''pay_9'' good_sig db_pay
     (post_payments_verify env0 toy_hmac ''key_secret'' any_token (Some ''Bearer abc'')
        (order1_body good_sig) db_pay) \<and>
     (\<exists>out. serve env0 toy_hmac ''key_secret'' True ''POST'' ''/functions/v1/payments/verify''
             None (order1_body good_sig) db_pay = Some out \<and>
          edge_verified env0 toy_hmac ''key_secret'' ''order_1'' ''pay_9'' good_sig db_pay out)"
    by blast
  from payment_verification[of "order1_body ''forged''" "''order_1''" "''pay_9''" "''forged''" env0
      any_token "Some ''Bearer abc''" toy_hmac "''key_secret''" db_pay
      "''/functions/v1/payments/verify''" None] pre[of "''forged''"] nf f auth
  have b: "verified_as_specified env0 toy_hmac ''key_secret'' ''order_1'' ''pay_9'' ''forged'' db_pay
     (post_payments_verify env0 toy_hmac ''key_secret'' any_token (Some ''Bearer abc'')
        (order1_body ''forged'') db_pay)"
    by blast
  have kid: "map p_id (keyed ''order_1'' db_pay) = [''p1'']"
    by (simp add: k pay1_def)
  from a b st1 st2 st3 kid show ?thesis by blast
qed

section \<open>Errors of the store\<close>




























end
